theory Spec2Isabelle
  imports
    Main
    "HOL-Library.AList"
    "HOL-Library.Char_ord"
    "HOL-Library.List_Lexorder"
    "HOL-Library.Product_Lexorder"
    "HOL-Library.Multiset"
begin

section \<open>Python values decoded from JSON\<close>

text \<open>
  A Python \<open>str\<close> is modelled by \<open>string\<close>; a character stands for a code point below
  256. A decoded JSON real is an IEEE double: the program looks at such a value only
  through \<open>int()\<close>, \<open>str()\<close>/\<open>format()\<close> and its truth value, so the model carries
  these three observations (\<open>float_int\<close> is \<open>None\<close> where \<open>int()\<close> raises, on an
  infinity or a NaN). A \<open>dict\<close> is an association list in insertion order, read with
  \<open>map_of\<close>.
\<close>

datatype pyfloat = PyFloat (float_int: "int option") (float_repr: string) (float_truth: bool)

datatype json =
    JNull
  | JBool bool
  | JInt int
  | JFloat pyfloat
  | JStr string
  | JList "json list"
  | JObj "(string \<times> json) list"

type_synonym raw_record = "(string \<times> json) list"

subsection \<open>Whitespace and \<open>str.strip\<close>\<close>

definition is_space :: "char \<Rightarrow> bool" where
  "is_space c =
     (let n = (of_char c :: int)
      in (9 \<le> n \<and> n \<le> 13) \<or> (28 \<le> n \<and> n \<le> 32) \<or> n = 133 \<or> n = 160)"

definition strip :: "string \<Rightarrow> string" where
  "strip s = rev (dropWhile is_space (rev (dropWhile is_space s)))"

definition endswith_Z :: "string \<Rightarrow> bool" where
  "endswith_Z s = (s \<noteq> [] \<and> last s = CHR ''Z'')"

subsection \<open>\<open>str()\<close> and \<open>repr()\<close>\<close>

definition digit_char :: "int \<Rightarrow> char" where
  "digit_char n = char_of (48 + n)"

text \<open>The decimal digits of a number that is not negative.\<close>

function digits_of :: "int \<Rightarrow> string" where
  "digits_of n =
     (if n < 10 then [digit_char n] else digits_of (n div 10) @ [digit_char (n mod 10)])"
  by pat_completeness auto
termination
  by (relation "measure nat") auto

definition str_int :: "int \<Rightarrow> string" where
  "str_int i = (if i < 0 then CHR ''-'' # digits_of (- i) else digits_of i)"

definition hex_char :: "int \<Rightarrow> char" where
  "hex_char n = (if n < 10 then char_of (48 + n) else char_of (87 + n))"

definition repr_char :: "char \<Rightarrow> char \<Rightarrow> string" where
  "repr_char quote c =
     (let n = (of_char c :: int) in
      if c = quote \<or> c = CHR 0x5C then [CHR 0x5C, c]
      else if n = 9 then [CHR 0x5C, CHR ''t'']
      else if n = 10 then [CHR 0x5C, CHR ''n'']
      else if n = 13 then [CHR 0x5C, CHR ''r'']
      else if n < 32 \<or> n = 127 \<or> (128 \<le> n \<and> n \<le> 160) \<or> n = 173
        then [CHR 0x5C, CHR ''x'', hex_char (n div 16), hex_char (n mod 16)]
      else [c])"

definition repr_str :: "string \<Rightarrow> string" where
  "repr_str s =
     (let quote = (if CHR 0x27 \<in> set s \<and> CHR 0x22 \<notin> set s then CHR 0x22 else CHR 0x27)
      in quote # concat (map (repr_char quote) s) @ [quote])"

fun join :: "string \<Rightarrow> string list \<Rightarrow> string" where
  "join sep [] = []"
| "join sep [x] = x"
| "join sep (x # y # ys) = x @ sep @ join sep (y # ys)"

fun py_repr :: "json \<Rightarrow> string"
  and repr_items :: "json list \<Rightarrow> string list"
  and repr_members :: "(string \<times> json) list \<Rightarrow> string list" where
  "py_repr JNull = ''None''"
| "py_repr (JBool b) = (if b then ''True'' else ''False'')"
| "py_repr (JInt i) = str_int i"
| "py_repr (JFloat f) = float_repr f"
| "py_repr (JStr s) = repr_str s"
| "py_repr (JList xs) = ''['' @ join '', '' (repr_items xs) @ '']''"
| "py_repr (JObj kvs) = ''{'' @ join '', '' (repr_members kvs) @ ''}''"
| "repr_items [] = []"
| "repr_items (x # xs) = py_repr x # repr_items xs"
| "repr_members [] = []"
| "repr_members ((k, v) # kvs) = (repr_str k @ '': '' @ py_repr v) # repr_members kvs"

definition py_str :: "json \<Rightarrow> string" where
  "py_str v = (case v of JStr s \<Rightarrow> s | _ \<Rightarrow> py_repr v)"

subsection \<open>Truth value and \<open>int()\<close>\<close>

definition truthy :: "json \<Rightarrow> bool" where
  "truthy v =
     (case v of
        JNull \<Rightarrow> False
      | JBool b \<Rightarrow> b
      | JInt i \<Rightarrow> i \<noteq> 0
      | JFloat f \<Rightarrow> float_truth f
      | JStr s \<Rightarrow> s \<noteq> []
      | JList xs \<Rightarrow> xs \<noteq> []
      | JObj kvs \<Rightarrow> kvs \<noteq> [])"

definition truthy_opt :: "json option \<Rightarrow> bool" where
  "truthy_opt x = (case x of None \<Rightarrow> False | Some v \<Rightarrow> truthy v)"

definition is_digit :: "char \<Rightarrow> bool" where
  "is_digit c = (let n = (of_char c :: int) in 48 \<le> n \<and> n \<le> 57)"

definition digit_val :: "char \<Rightarrow> int" where
  "digit_val c = of_char c - 48"

definition int_of_digits :: "string \<Rightarrow> int" where
  "int_of_digits ds = foldl (\<lambda>a c. 10 * a + digit_val c) 0 ds"

text \<open>
  Of a \<open>datetime\<close> the program reads the year only; the model keeps all fields that the
  parsers check. \<open>new_datetime\<close> is the constructor's range check (\<open>None\<close> where it
  raises ValueError). \<open>dt_utcoffset\<close> is in microseconds, \<open>None\<close> for a naive value.
\<close>

record datetime =
  dt_year :: int
  dt_month :: int
  dt_day :: int
  dt_hour :: int
  dt_minute :: int
  dt_second :: int
  dt_microsecond :: int
  dt_utcoffset :: "int option"

text \<open>
  What the Python runtime decides beyond the part that is modelled here. What
  \<open>datetime.fromisoformat\<close> accepts has grown from version to version, and \<open>int(str)\<close>
  depends on the version and its configuration for long texts (the bound on the number
  of digits, never below 640) and treats whitespace and digits beyond ASCII in its own
  way. \<open>iso_more\<close> gives the result of \<open>fromisoformat\<close> on a text outside the grammar
  that every version accepts, \<open>int_more\<close> the result of \<open>int\<close> on a text that is not
  ASCII or longer than 640 characters; both are \<open>None\<close> where the call raises.
  Every property below holds for every runtime.
\<close>

record runtime =
  iso_more :: "string \<Rightarrow> datetime option"
  int_more :: "string \<Rightarrow> int option"

text \<open>
  The digits of an integer literal accepted by \<open>int(str)\<close>: digits, with single
  underscores allowed between two digits.
\<close>

fun int_body :: "string \<Rightarrow> string option" where
  "int_body [] = None"
| "int_body [c] = (if is_digit c then Some [c] else None)"
| "int_body (c # d # cs) =
     (if \<not> is_digit c then None
      else if d = CHR ''_'' then map_option (\<lambda>r. c # r) (int_body cs)
      else map_option (\<lambda>r. c # r) (int_body (d # cs)))"

text \<open>
  \<open>int\<close> on an ASCII text skips the whitespace of C (tab to carriage return, and the
  space) on both sides, then reads a sign and the digits.
\<close>

definition is_ascii :: "char \<Rightarrow> bool" where
  "is_ascii c = ((of_char c :: int) < 128)"

definition is_c_space :: "char \<Rightarrow> bool" where
  "is_c_space c = (let n = (of_char c :: int) in (9 \<le> n \<and> n \<le> 13) \<or> n = 32)"

definition int_core :: "string \<Rightarrow> int option" where
  "int_core s =
     (case rev (dropWhile is_c_space (rev (dropWhile is_c_space s))) of
        [] \<Rightarrow> None
      | c # cs \<Rightarrow>
          if c = CHR ''-'' then map_option (\<lambda>ds. - int_of_digits ds) (int_body cs)
          else if c = CHR ''+'' then map_option (\<lambda>ds. int_of_digits ds) (int_body cs)
          else map_option (\<lambda>ds. int_of_digits ds) (int_body (c # cs)))"

definition int_of_str :: "runtime \<Rightarrow> string \<Rightarrow> int option" where
  "int_of_str rt s =
     (if list_all is_ascii s \<and> int (length s) \<le> 640 then int_core s else int_more rt s)"

text \<open>\<open>py_int v\<close> is \<open>None\<close> where \<open>int(v)\<close> raises (TypeError, ValueError, OverflowError).\<close>

definition py_int :: "runtime \<Rightarrow> json \<Rightarrow> int option" where
  "py_int rt v =
     (case v of
        JNull \<Rightarrow> None
      | JBool b \<Rightarrow> Some (if b then 1 else 0)
      | JInt i \<Rightarrow> Some i
      | JFloat f \<Rightarrow> float_int f
      | JStr s \<Rightarrow> int_of_str rt s
      | JList xs \<Rightarrow> None
      | JObj kvs \<Rightarrow> None)"

section \<open>Timestamps\<close>

definition is_leap :: "int \<Rightarrow> bool" where
  "is_leap y = (y mod 4 = 0 \<and> (y mod 100 \<noteq> 0 \<or> y mod 400 = 0))"

definition days_in_month :: "int \<Rightarrow> int \<Rightarrow> int" where
  "days_in_month y m =
     (if m = 2 then (if is_leap y then 29 else 28)
      else if m = 4 \<or> m = 6 \<or> m = 9 \<or> m = 11 then 30 else 31)"

definition new_datetime ::
  "int \<Rightarrow> int \<Rightarrow> int \<Rightarrow> int \<Rightarrow> int \<Rightarrow> int \<Rightarrow> int \<Rightarrow> int option \<Rightarrow> datetime option" where
  "new_datetime y mo d h mi s us tz =
     (if 1 \<le> y \<and> y \<le> 9999 \<and> 1 \<le> mo \<and> mo \<le> 12 \<and> 1 \<le> d \<and> d \<le> days_in_month y mo
         \<and> 0 \<le> h \<and> h \<le> 23 \<and> 0 \<le> mi \<and> mi \<le> 59 \<and> 0 \<le> s \<and> s \<le> 59
         \<and> 0 \<le> us \<and> us \<le> 999999
      then Some \<lparr>dt_year = y, dt_month = mo, dt_day = d, dt_hour = h, dt_minute = mi,
                 dt_second = s, dt_microsecond = us, dt_utcoffset = tz\<rparr>
      else None)"

subsection \<open>\<open>datetime.fromisoformat\<close>\<close>

text \<open>
  Every version of \<open>fromisoformat\<close> accepts the grammar documented for Python 3.7:
  \<open>YYYY-MM-DD[*HH[:MM[:SS[.fff[fff]]]][+HH:MM[:SS[.ffffff]]]]\<close>, where \<open>*\<close> is any
  single character and the digits are ASCII digits; \<open>iso_core\<close> parses it. Later
  versions accept more (\<open>20230501\<close>, week dates, other fractions and offsets): on a
  text outside the grammar the result is the runtime's. Every version raises on a text
  of fewer than 7 characters or one that does not start with four ASCII digits, and
  every \<open>datetime\<close> has a year from 1 to 9999.
\<close>

definition take_digits :: "nat \<Rightarrow> string \<Rightarrow> (int \<times> string) option" where
  "take_digits k s =
     (if length s \<ge> k \<and> list_all is_digit (take k s)
      then Some (int_of_digits (take k s), drop k s) else None)"

definition parse_hh_mm_ss_ff :: "string \<Rightarrow> (int \<times> int \<times> int \<times> int) option" where
  "parse_hh_mm_ss_ff s =
     (case take_digits 2 s of
        None \<Rightarrow> None
      | Some (h, r1) \<Rightarrow>
          if r1 = [] then Some (h, 0, 0, 0)
          else if hd r1 \<noteq> CHR '':'' then None
          else (case take_digits 2 (tl r1) of
              None \<Rightarrow> None
            | Some (m, r2) \<Rightarrow>
                if r2 = [] then Some (h, m, 0, 0)
                else if hd r2 \<noteq> CHR '':'' then None
                else (case take_digits 2 (tl r2) of
                    None \<Rightarrow> None
                  | Some (sec, r3) \<Rightarrow>
                      if r3 = [] then Some (h, m, sec, 0)
                      else if hd r3 \<noteq> CHR ''.'' then None
                      else (let f = tl r3 in
                            if (length f = 3 \<or> length f = 6) \<and> list_all is_digit f
                            then Some (h, m, sec,
                                       if length f = 3 then int_of_digits f * 1000
                                       else int_of_digits f)
                            else None))))"

definition parse_isoformat_date :: "string \<Rightarrow> (int \<times> int \<times> int) option" where
  "parse_isoformat_date s =
     (case take_digits 4 s of
        None \<Rightarrow> None
      | Some (y, r1) \<Rightarrow>
          if r1 = [] \<or> hd r1 \<noteq> CHR ''-'' then None
          else (case take_digits 2 (tl r1) of
              None \<Rightarrow> None
            | Some (m, r2) \<Rightarrow>
                if r2 = [] \<or> hd r2 \<noteq> CHR ''-'' then None
                else (case take_digits 2 (tl r2) of
                    None \<Rightarrow> None
                  | Some (d, r3) \<Rightarrow> if r3 = [] then Some (y, m, d) else None)))"

definition is_sign :: "char \<Rightarrow> bool" where
  "is_sign c = (c = CHR ''+'' \<or> c = CHR ''-'')"

definition parse_tz :: "string \<Rightarrow> int option option" where
  "parse_tz tz =
     (case tz of
        [] \<Rightarrow> Some None
      | sg # body \<Rightarrow>
          if length body = 5 \<or> length body = 8 \<or> length body = 15 then
            (case parse_hh_mm_ss_ff body of
               None \<Rightarrow> None
             | Some (h, m, s, us) \<Rightarrow>
                 (let off = (if sg = CHR ''-'' then - 1 else 1)
                              * ((h * 3600 + m * 60 + s) * 1000000 + us)
                  in if - 86400000000 < off \<and> off < 86400000000 then Some (Some off)
                     else None))
          else None)"

definition iso_core :: "string \<Rightarrow> datetime option" where
  "iso_core s =
     (case parse_isoformat_date (take 10 s) of
        None \<Rightarrow> None
      | Some (y, mo, d) \<Rightarrow>
          if length s \<le> 10 then new_datetime y mo d 0 0 0 0 None
          else (let tstr = drop 11 s;
                    timestr = takeWhile (\<lambda>c. \<not> is_sign c) tstr;
                    tzstr = dropWhile (\<lambda>c. \<not> is_sign c) tstr
                in case parse_hh_mm_ss_ff timestr of
                     None \<Rightarrow> None
                   | Some (h, mi, sec, us) \<Rightarrow>
                       (case parse_tz tzstr of
                          None \<Rightarrow> None
                        | Some tz \<Rightarrow> new_datetime y mo d h mi sec us tz)))"

definition year_first :: "string \<Rightarrow> bool" where
  "year_first s = (4 \<le> length s \<and> list_all is_digit (take 4 s))"

definition fromisoformat :: "runtime \<Rightarrow> string \<Rightarrow> datetime option" where
  "fromisoformat rt s =
     (case iso_core s of
        Some d \<Rightarrow> Some d
      | None \<Rightarrow>
          if year_first s \<and> 7 \<le> length s then
            (case iso_more rt s of
               None \<Rightarrow> None
             | Some d \<Rightarrow> if 1 \<le> dt_year d \<and> dt_year d \<le> 9999 then Some d else None)
          else None)"

subsection \<open>\<open>datetime.strptime\<close>\<close>

text \<open>
  \<open>strptime\<close> turns the format into a regular expression (a directive into an
  alternation, a run of whitespace into \<open>\s+\<close>, any other character into itself,
  matched ignoring case), takes the first match in backtracking order at the start of
  the text, and raises if text remains or the fields are no date. Only the directives
  the program's two formats use are given alternatives.
\<close>

datatype fmt_item = Dir char | Lit char | Spaces

function parse_format :: "string \<Rightarrow> fmt_item list" where
  "parse_format [] = []"
| "parse_format (c # cs) =
     (if c = CHR ''%'' then (case cs of [] \<Rightarrow> [] | d # r \<Rightarrow> Dir d # parse_format r)
      else if is_space c then Spaces # parse_format (dropWhile is_space cs)
      else Lit c # parse_format cs)"
  by pat_completeness auto
termination
  by (relation "measure length") (auto simp: le_imp_less_Suc length_dropWhile_le)

definition in_range :: "char \<Rightarrow> char \<Rightarrow> char \<Rightarrow> bool" where
  "in_range lo hi c = ((of_char lo :: int) \<le> of_char c \<and> (of_char c :: int) \<le> of_char hi)"

definition directive_alts :: "char \<Rightarrow> (char \<Rightarrow> bool) list list" where
  "directive_alts d =
     (if d = CHR ''Y'' then [[is_digit, is_digit, is_digit, is_digit]]
      else if d = CHR ''m'' then
        [[(=) CHR ''1'', in_range CHR ''0'' CHR ''2''],
         [(=) CHR ''0'', in_range CHR ''1'' CHR ''9''],
         [in_range CHR ''1'' CHR ''9'']]
      else if d = CHR ''d'' then
        [[(=) CHR ''3'', in_range CHR ''0'' CHR ''1''],
         [in_range CHR ''1'' CHR ''2'', is_digit],
         [(=) CHR ''0'', in_range CHR ''1'' CHR ''9''],
         [in_range CHR ''1'' CHR ''9''],
         [(=) CHR '' '', in_range CHR ''1'' CHR ''9'']]
      else if d = CHR ''H'' then
        [[(=) CHR ''2'', in_range CHR ''0'' CHR ''3''],
         [in_range CHR ''0'' CHR ''1'', is_digit],
         [is_digit]]
      else if d = CHR ''M'' then
        [[in_range CHR ''0'' CHR ''5'', is_digit], [is_digit]]
      else if d = CHR ''S'' then
        [[(=) CHR ''6'', in_range CHR ''0'' CHR ''1''],
         [in_range CHR ''0'' CHR ''5'', is_digit],
         [is_digit]]
      else [])"

fun match_classes :: "(char \<Rightarrow> bool) list \<Rightarrow> string \<Rightarrow> (string \<times> string) option" where
  "match_classes [] s = Some ([], s)"
| "match_classes (p # ps) [] = None"
| "match_classes (p # ps) (c # cs) =
     (if p c then map_option (\<lambda>(m, r). (c # m, r)) (match_classes ps cs) else None)"

fun first_some :: "'a option list \<Rightarrow> 'a option" where
  "first_some [] = None"
| "first_some (None # xs) = first_some xs"
| "first_some (Some x # xs) = Some x"

definition ascii_lower :: "char \<Rightarrow> char" where
  "ascii_lower c = (if in_range CHR ''A'' CHR ''Z'' c then char_of ((of_char c :: int) + 32) else c)"

fun strptime_match ::
  "fmt_item list \<Rightarrow> string \<Rightarrow> (char \<times> string) list \<Rightarrow> ((char \<times> string) list \<times> string) option" where
  "strptime_match [] s acc = Some (acc, s)"
| "strptime_match (Lit c # fs) s acc =
     (case s of
        [] \<Rightarrow> None
      | x # xs \<Rightarrow> if ascii_lower x = ascii_lower c then strptime_match fs xs acc else None)"
| "strptime_match (Spaces # fs) s acc =
     first_some (map (\<lambda>k. strptime_match fs (drop k s) acc)
                     (rev [1 ..< Suc (length (takeWhile is_space s))]))"
| "strptime_match (Dir d # fs) s acc =
     first_some (map (\<lambda>alt. case match_classes alt s of
                               None \<Rightarrow> None
                             | Some (txt, rest) \<Rightarrow> strptime_match fs rest ((d, txt) # acc))
                     (directive_alts d))"

definition field :: "(char \<times> string) list \<Rightarrow> char \<Rightarrow> int \<Rightarrow> int" where
  "field fs d dflt =
     (case map_of fs d of None \<Rightarrow> dflt | Some txt \<Rightarrow> int_of_digits (filter is_digit txt))"

definition strptime :: "string \<Rightarrow> string \<Rightarrow> datetime option" where
  "strptime s fmt =
     (case strptime_match (parse_format fmt) s [] of
        None \<Rightarrow> None
      | Some (fs, rest) \<Rightarrow>
          if rest \<noteq> [] then None
          else new_datetime (field fs CHR ''Y'' 1900) (field fs CHR ''m'' 1) (field fs CHR ''d'' 1)
                 (field fs CHR ''H'' 0) (field fs CHR ''M'' 0) (field fs CHR ''S'' 0) 0 None)"

subsection \<open>\<open>parse_dt\<close>\<close>

text \<open>Lines 13 to 15: the text that is parsed.\<close>

definition clean_ts :: "json \<Rightarrow> string" where
  "clean_ts ts = (let s0 = strip (py_str ts) in if endswith_Z s0 then butlast s0 else s0)"

definition parse_dt :: "runtime \<Rightarrow> json \<Rightarrow> datetime option" where
  "parse_dt rt ts =
     (let s = clean_ts ts
      in case fromisoformat rt s of
           Some d \<Rightarrow> Some d
         | None \<Rightarrow>
             (case strptime s ''%Y-%m-%d %H:%M'' of
                Some d \<Rightarrow> Some d
              | None \<Rightarrow> strptime s ''%Y-%m-%dT%H:%M:%S''))"

section \<open>Normalizing a record\<close>

definition nullish :: "json \<Rightarrow> bool" where
  "nullish v = (v = JNull \<or> v = JStr [] \<or> v = JStr ''null'')"

fun safe_get :: "raw_record \<Rightarrow> string list \<Rightarrow> json option" where
  "safe_get d [] = None"
| "safe_get d (k # ks) =
     (case map_of d k of
        None \<Rightarrow> safe_get d ks
      | Some v \<Rightarrow> if nullish v then safe_get d ks else Some v)"

definition INCLUDE_PODCASTS_AUDIOBOOKS :: bool where
  "INCLUDE_PODCASTS_AUDIOBOOKS = False"

definition ts_keys :: "string list" where
  "ts_keys = [''ts'', ''endTime'', ''timestamp'', ''played_at'']"

definition ms_keys :: "string list" where
  "ms_keys = [''ms_played'', ''msPlayed'', ''play_duration_ms'']"

definition track_keys :: "string list" where
  "track_keys = [''master_metadata_track_name'', ''trackName'', ''track'', ''track_name'', ''name'']"

definition artist_keys :: "string list" where
  "artist_keys = [''master_metadata_album_artist_name'', ''artistName'', ''artist'',
                  ''artist_name'', ''master_metadata_artist_name'']"

text \<open>The canonical tuple \<open>(year, item_type, artist_key, item_key, ms)\<close>.\<close>

type_synonym event = "int \<times> string \<times> string \<times> string \<times> int"

definition ev_year :: "event \<Rightarrow> int" where
  "ev_year e = fst e"

definition ev_artist :: "event \<Rightarrow> string" where
  "ev_artist e = fst (snd (snd e))"

definition ev_item :: "event \<Rightarrow> string" where
  "ev_item e = fst (snd (snd (snd e)))"

definition ev_ms :: "event \<Rightarrow> int" where
  "ev_ms e = snd (snd (snd (snd e)))"

text \<open>Lines 52 to 55: the timestamp of a record.\<close>

definition resolve_dt :: "runtime \<Rightarrow> raw_record \<Rightarrow> datetime option" where
  "resolve_dt rt r = (case safe_get r ts_keys of None \<Rightarrow> None | Some ts \<Rightarrow> parse_dt rt ts)"

text \<open>Lines 57 to 61: the duration of a record, 0 where it is missing or \<open>int()\<close> raises.\<close>

definition resolve_ms :: "runtime \<Rightarrow> raw_record \<Rightarrow> int" where
  "resolve_ms rt r =
     (case safe_get r ms_keys of
        None \<Rightarrow> 0
      | Some v \<Rightarrow> (case py_int rt v of None \<Rightarrow> 0 | Some n \<Rightarrow> n))"

text \<open>
  An f-string \<open>f"{a} - {b}"\<close> followed by \<open>str(...).strip()\<close>, and \<open>str(a).strip()\<close>.
\<close>

definition labelled :: "string \<Rightarrow> json \<Rightarrow> json \<Rightarrow> datetime \<Rightarrow> int \<Rightarrow> event" where
  "labelled item_type a b dt ms =
     (dt_year dt, item_type, strip (py_str a), strip (py_str a @ '' - '' @ py_str b), ms)"

definition classify :: "bool \<Rightarrow> raw_record \<Rightarrow> datetime \<Rightarrow> int \<Rightarrow> event option" where
  "classify include r dt ms =
     (let track = safe_get r track_keys;
          artist = safe_get r artist_keys
      in if truthy_opt track \<and> truthy_opt artist
         then Some (labelled ''song'' (the artist) (the track) dt ms)
         else if include then
           (let ep = safe_get r [''episode_name''];
                show = safe_get r [''episode_show_name'']
            in if truthy_opt ep \<and> truthy_opt show
               then Some (labelled ''podcast'' (the show) (the ep) dt ms)
               else
                 (let ab = safe_get r [''audiobook_title''];
                      ch = safe_get r [''audiobook_chapter_title'']
                  in if truthy_opt ab \<and> truthy_opt ch
                     then Some (labelled ''audiobook'' (the ab) (the ch) dt ms)
                     else None))
         else None)"

definition normalize_record_with :: "runtime \<Rightarrow> bool \<Rightarrow> raw_record \<Rightarrow> event option" where
  "normalize_record_with rt include r =
     (case resolve_dt rt r of
        None \<Rightarrow> None
      | Some dt \<Rightarrow>
          (let ms = resolve_ms rt r
           in if ms \<le> 0 then None else classify include r dt ms))"

definition normalize_record :: "runtime \<Rightarrow> raw_record \<Rightarrow> event option" where
  "normalize_record rt r = normalize_record_with rt INCLUDE_PODCASTS_AUDIOBOOKS r"

section \<open>Loading the files\<close>

text \<open>
  The file system is given by two functions: \<open>glob\<close> maps a folder to the paths that
  \<open>glob.glob(os.path.join(folder, "**", "*.json"), recursive=True)\<close> returns, and
  \<open>rd\<close> maps a path to what opening and decoding it gives: \<open>open\<close> raises, or
  \<open>json.load\<close> raises, or a value is decoded.
\<close>

datatype file_content = Open_fails | Decode_fails | Decoded json

datatype error = No_json_files string | Open_error string

definition DATA_FOLDER :: string where
  "DATA_FOLDER = ''./spotify_data''"

definition TOP_N :: nat where
  "TOP_N = 10"

definition SAVE_CSV :: bool where
  "SAVE_CSV = True"

text \<open>Lines 43 and 44: a dict with a list under \<open>"history"\<close> is replaced by that list.\<close>

definition unwrap_history :: "json \<Rightarrow> json" where
  "unwrap_history data =
     (case data of
        JObj kvs \<Rightarrow> (case map_of kvs ''history'' of Some (JList h) \<Rightarrow> JList h | _ \<Rightarrow> data)
      | _ \<Rightarrow> data)"

text \<open>Lines 46 to 48: the inner loop, appending the dicts of a list to \<open>records\<close>.\<close>

fun append_dicts :: "raw_record list \<Rightarrow> json list \<Rightarrow> raw_record list" where
  "append_dicts records [] = records"
| "append_dicts records (r # rs) =
     append_dicts (case r of JObj kvs \<Rightarrow> records @ [kvs] | _ \<Rightarrow> records) rs"

definition add_file :: "raw_record list \<Rightarrow> json \<Rightarrow> raw_record list" where
  "add_file records data =
     (case unwrap_history data of JList xs \<Rightarrow> append_dicts records xs | _ \<Rightarrow> records)"

text \<open>Lines 37 to 48: the loop over the paths.\<close>

fun load_loop ::
  "(string \<Rightarrow> file_content) \<Rightarrow> raw_record list \<Rightarrow> string list \<Rightarrow> error + raw_record list" where
  "load_loop rd records [] = Inr records"
| "load_loop rd records (p # ps) =
     (case rd p of
        Open_fails \<Rightarrow> Inl (Open_error p)
      | Decode_fails \<Rightarrow> load_loop rd records ps
      | Decoded data \<Rightarrow> load_loop rd (add_file records data) ps)"

definition load_streaming_history ::
  "(string \<Rightarrow> string list) \<Rightarrow> (string \<Rightarrow> file_content) \<Rightarrow> string \<Rightarrow> error + raw_record list" where
  "load_streaming_history glob rd folder =
     (let paths = sort (remdups (glob folder))
      in if paths = [] then Inl (No_json_files folder) else load_loop rd [] paths)"

section \<open>Aggregating\<close>

text \<open>
  A \<open>Counter\<close> is a dict in insertion order whose missing keys read as 0; a
  \<open>defaultdict(Counter)\<close> is a dict whose missing keys read as the empty counter.
  \<open>AList.update\<close> replaces the value of a key where the key stands, and appends a new
  key at the end, as assignment to a dict entry does.
\<close>

definition counter_get :: "('k \<times> int) list \<Rightarrow> 'k \<Rightarrow> int" where
  "counter_get c k = (case map_of c k of None \<Rightarrow> 0 | Some v \<Rightarrow> v)"

definition counter_add :: "('k \<times> int) list \<Rightarrow> 'k \<Rightarrow> int \<Rightarrow> ('k \<times> int) list" where
  "counter_add c k v = AList.update k (counter_get c k + v) c"

definition dd_get :: "('y \<times> ('k \<times> int) list) list \<Rightarrow> 'y \<Rightarrow> ('k \<times> int) list" where
  "dd_get d y = (case map_of d y of None \<Rightarrow> [] | Some c \<Rightarrow> c)"

definition dd_add ::
  "('y \<times> ('k \<times> int) list) list \<Rightarrow> 'y \<Rightarrow> 'k \<Rightarrow> int \<Rightarrow> ('y \<times> ('k \<times> int) list) list" where
  "dd_add d y k v = AList.update y (counter_add (dd_get d y) k v) d"

record totals =
  artist_ms :: "(int \<times> (string \<times> int) list) list"
  track_ms :: "(int \<times> (string \<times> int) list) list"
  year_total_ms :: "(int \<times> int) list"
  year_streams :: "(int \<times> int) list"
  usable :: nat

definition no_totals :: totals where
  "no_totals = \<lparr>artist_ms = [], track_ms = [], year_total_ms = [], year_streams = [], usable = 0\<rparr>"

text \<open>Lines 115 to 121: what one canonical tuple adds.\<close>

definition add_event :: "totals \<Rightarrow> event \<Rightarrow> totals" where
  "add_event s e =
     (case e of (year, item_type, artist_key, item_key, ms) \<Rightarrow>
        \<lparr>artist_ms = dd_add (artist_ms s) year artist_key ms,
         track_ms = dd_add (track_ms s) year item_key ms,
         year_total_ms = counter_add (year_total_ms s) year ms,
         year_streams = counter_add (year_streams s) year 1,
         usable = usable s + 1\<rparr>)"

text \<open>Lines 111 to 121: the loop over the records.\<close>

fun aggregate_loop :: "runtime \<Rightarrow> totals \<Rightarrow> raw_record list \<Rightarrow> totals" where
  "aggregate_loop rt s [] = s"
| "aggregate_loop rt s (r # rs) =
     (case normalize_record rt r of
        None \<Rightarrow> aggregate_loop rt s rs
      | Some e \<Rightarrow> aggregate_loop rt (add_event s e) rs)"

definition aggregate :: "runtime \<Rightarrow> raw_record list \<Rightarrow> totals" where
  "aggregate rt records = aggregate_loop rt no_totals records"

section \<open>Reporting\<close>

text \<open>
  \<open>Counter.most_common()\<close> is \<open>sorted(items, key=itemgetter(1), reverse=True)\<close>, a
  stable sort; \<open>most_common(n)\<close> is \<open>heapq.nlargest(n, items, key=itemgetter(1))\<close>,
  documented as equivalent to the first \<open>n\<close> entries of that sorted list. \<open>sort_key\<close> is
  a stable sort too.
\<close>

definition most_common_all :: "('k \<times> int) list \<Rightarrow> ('k \<times> int) list" where
  "most_common_all c = sort_key (\<lambda>kv. - snd kv) c"

definition most_common :: "nat \<Rightarrow> ('k \<times> int) list \<Rightarrow> ('k \<times> int) list" where
  "most_common n c = take n (most_common_all c)"

text \<open>
  What \<open>main\<close> prints and writes, in order. A line that shows hours carries the
  milliseconds: \<open>ms_to_hours\<close> and the formatting of its result are floating point and
  stay outside the model, as does the padding of the names.
\<close>

datatype action =
    Print_no_usable
  | Print_banner
  | Make_dirs string
  | Print_year int
  | Print_total_listening int
  | Print_total_streams int
  | Print_top_artists nat
  | Print_artist string int
  | Print_top_songs nat
  | Print_song string int
  | Print_blank
  | Write_file string string
  | Write_year_totals string "(int \<times> int \<times> int) list"
  | Print_saved

text \<open>Lines 96 to 100: the text of a counter's file.\<close>

definition csv_row :: "string \<times> int \<Rightarrow> string" where
  "csv_row kv = [CHR 0x22] @ fst kv @ [CHR 0x22] @ '','' @ str_int (snd kv) @ [CHR 0x0A]"

definition save_counter_csv :: "string \<Rightarrow> (string \<times> int) list \<Rightarrow> string \<Rightarrow> string \<Rightarrow> action" where
  "save_counter_csv path counter left right =
     Write_file path (left @ '','' @ right @ [CHR 0x0A] @ concat (map csv_row (most_common_all counter)))"

definition top_artists :: "totals \<Rightarrow> int \<Rightarrow> (string \<times> int) list" where
  "top_artists s y = most_common TOP_N (dd_get (artist_ms s) y)"

definition top_songs :: "totals \<Rightarrow> int \<Rightarrow> (string \<times> int) list" where
  "top_songs s y = most_common TOP_N (dd_get (track_ms s) y)"

text \<open>Lines 134 to 149: the body of the loop over the years.\<close>

definition report_year :: "totals \<Rightarrow> int \<Rightarrow> action list" where
  "report_year s y =
     [Print_year y,
      Print_total_listening (counter_get (year_total_ms s) y),
      Print_total_streams (counter_get (year_streams s) y),
      Print_top_artists TOP_N]
     @ map (\<lambda>kv. Print_artist (fst kv) (snd kv)) (top_artists s y)
     @ [Print_top_songs TOP_N]
     @ map (\<lambda>kv. Print_song (fst kv) (snd kv)) (top_songs s y)
     @ [Print_blank]
     @ (if SAVE_CSV
        then [save_counter_csv (''out/'' @ str_int y @ ''_top_artists.csv'')
                (dd_get (artist_ms s) y) ''artist'' ''ms_listened'',
              save_counter_csv (''out/'' @ str_int y @ ''_top_songs.csv'')
                (dd_get (track_ms s) y) ''song'' ''ms_listened'']
        else [])"

text \<open>Lines 105 to 156: \<open>main\<close> after the records are loaded.\<close>

definition report :: "runtime \<Rightarrow> raw_record list \<Rightarrow> action list" where
  "report rt records =
     (let s = aggregate rt records
      in if usable s = 0 then [Print_no_usable]
         else
           (let years = sort (map fst (year_total_ms s))
            in [Print_banner]
               @ (if SAVE_CSV then [Make_dirs ''out''] else [])
               @ concat (map (report_year s) years)
               @ (if SAVE_CSV
                  then [Write_year_totals ''out/year_totals.csv''
                          (map (\<lambda>y. (y, counter_get (year_total_ms s) y,
                                       counter_get (year_streams s) y)) years),
                        Print_saved]
                  else [])))"


section \<open>Notions used to state the properties\<close>

text \<open>A runtime that accepts nothing beyond the modelled part, for concrete instances.\<close>

definition core_runtime :: runtime where
  "core_runtime = \<lparr>iso_more = (\<lambda>s. None), int_more = (\<lambda>s. None)\<rparr>"

text \<open>The canonical tuples of a sequence of records, in order.\<close>

definition events_of :: "runtime \<Rightarrow> raw_record list \<Rightarrow> event list" where
  "events_of rt records = List.map_filter (normalize_record rt) records"

text \<open>
  The ranking as the specification words it: the entries in the total order given by
  the duration, descending, and then by the position of insertion.
\<close>

definition rank_key :: "nat \<times> ('k \<times> int) \<Rightarrow> int \<times> nat" where
  "rank_key p = (- snd (snd p), fst p)"

definition ranking :: "('k \<times> int) list \<Rightarrow> ('k \<times> int) list" where
  "ranking c = map snd (sort_key rank_key (enumerate 0 c))"

text \<open>
  The probe as the specification words it for the timestamp: the first candidate field
  that is present with a value that is neither null nor the empty string.
\<close>

fun first_present :: "raw_record \<Rightarrow> string list \<Rightarrow> json option" where
  "first_present d [] = None"
| "first_present d (k # ks) =
     (case map_of d k of
        None \<Rightarrow> first_present d ks
      | Some v \<Rightarrow> if v = JNull \<or> v = JStr [] then first_present d ks else Some v)"

text \<open>
  What a file gives as the specification words it: the objects of a bare list, or the
  objects of the list that an object holds under \<open>"history"\<close>, and nothing otherwise.
\<close>

definition dicts_of :: "json list \<Rightarrow> raw_record list" where
  "dicts_of xs = List.map_filter (\<lambda>x. case x of JObj kvs \<Rightarrow> Some kvs | _ \<Rightarrow> None) xs"

definition records_of :: "file_content \<Rightarrow> raw_record list" where
  "records_of f =
     (case f of
        Decoded data \<Rightarrow>
          (case data of
             JList xs \<Rightarrow> dicts_of xs
           | JObj kvs \<Rightarrow> (case map_of kvs ''history'' of Some (JList xs) \<Rightarrow> dicts_of xs | _ \<Rightarrow> [])
           | _ \<Rightarrow> [])
      | _ \<Rightarrow> [])"

section \<open>Counters\<close>

lemma counter_get_add:
  "counter_get (counter_add c k v) k' = (if k' = k then counter_get c k + v else counter_get c k')"
  by (simp add: counter_get_def counter_add_def update_conv')

lemma sum_update:
  "sum_list (map snd (AList.update k (counter_get c k + v) c)) = sum_list (map snd c) + v"
  by (induction c) (auto simp: counter_get_def)

lemma sum_counter_add: "sum_list (map snd (counter_add c k v)) = sum_list (map snd c) + v"
  by (simp add: counter_add_def sum_update)

lemma dd_get_add:
  "dd_get (dd_add d y k v) y' = (if y' = y then counter_add (dd_get d y) k v else dd_get d y')"
  by (simp add: dd_get_def dd_add_def update_conv')

lemma keys_counter_add: "fst ` set (counter_add c k v) = insert k (fst ` set c)"
  by (simp add: counter_add_def dom_update)

lemma distinct_counter_add:
  "distinct (map fst c) \<Longrightarrow> distinct (map fst (counter_add c k v))"
  by (simp add: counter_add_def distinct_update)

section \<open>The totals after a run\<close>

lemma aggregate_loop_events: "aggregate_loop rt s rs = foldl add_event s (events_of rt rs)"
  by (induction rs arbitrary: s)
     (auto simp: events_of_def List.map_filter_simps split: option.splits)

lemma fold_year_total:
  "counter_get (year_total_ms (foldl add_event s evs)) y =
     counter_get (year_total_ms s) y + sum_list (map ev_ms (filter (\<lambda>e. ev_year e = y) evs))"
  by (induction evs arbitrary: s)
     (auto simp: add_event_def counter_get_add ev_ms_def ev_year_def split: prod.splits)

lemma fold_year_streams:
  "counter_get (year_streams (foldl add_event s evs)) y =
     counter_get (year_streams s) y + int (length (filter (\<lambda>e. ev_year e = y) evs))"
  by (induction evs arbitrary: s)
     (auto simp: add_event_def counter_get_add ev_year_def split: prod.splits)

lemma fold_artist_sum:
  "sum_list (map snd (dd_get (artist_ms (foldl add_event s evs)) y)) =
     sum_list (map snd (dd_get (artist_ms s) y))
     + sum_list (map ev_ms (filter (\<lambda>e. ev_year e = y) evs))"
  by (induction evs arbitrary: s)
     (auto simp: add_event_def dd_get_add sum_counter_add ev_ms_def ev_year_def split: prod.splits)

lemma fold_track_sum:
  "sum_list (map snd (dd_get (track_ms (foldl add_event s evs)) y)) =
     sum_list (map snd (dd_get (track_ms s) y))
     + sum_list (map ev_ms (filter (\<lambda>e. ev_year e = y) evs))"
  by (induction evs arbitrary: s)
     (auto simp: add_event_def dd_get_add sum_counter_add ev_ms_def ev_year_def split: prod.splits)

lemma fold_artist_bucket:
  "counter_get (dd_get (artist_ms (foldl add_event s evs)) y) a =
     counter_get (dd_get (artist_ms s) y) a
     + sum_list (map ev_ms (filter (\<lambda>e. ev_year e = y \<and> ev_artist e = a) evs))"
  by (induction evs arbitrary: s)
     (auto simp: add_event_def dd_get_add counter_get_add ev_ms_def ev_year_def ev_artist_def
           split: prod.splits)

lemma fold_track_bucket:
  "counter_get (dd_get (track_ms (foldl add_event s evs)) y) t =
     counter_get (dd_get (track_ms s) y) t
     + sum_list (map ev_ms (filter (\<lambda>e. ev_year e = y \<and> ev_item e = t) evs))"
  by (induction evs arbitrary: s)
     (auto simp: add_event_def dd_get_add counter_get_add ev_ms_def ev_year_def ev_item_def
           split: prod.splits)

lemma fold_year_keys:
  "fst ` set (year_total_ms (foldl add_event s evs)) =
     fst ` set (year_total_ms s) \<union> ev_year ` set evs"
  by (induction evs arbitrary: s)
     (auto simp: add_event_def keys_counter_add ev_year_def split: prod.splits)

lemma fold_usable: "usable (foldl add_event s evs) = usable s + length evs"
  by (induction evs arbitrary: s) (auto simp: add_event_def split: prod.splits)

lemma aggregate_events: "aggregate rt records = foldl add_event no_totals (events_of rt records)"
  by (simp add: aggregate_def aggregate_loop_events)

lemma counter_get_Nil [simp]: "counter_get [] k = 0"
  by (simp add: counter_get_def)

lemma no_totals_get [simp]:
  "counter_get (year_total_ms no_totals) y = 0"
  "counter_get (year_streams no_totals) y = 0"
  "dd_get (artist_ms no_totals) y = []"
  "dd_get (track_ms no_totals) y = []"
  "year_total_ms no_totals = []"
  "usable no_totals = 0"
  by (simp_all add: no_totals_def counter_get_def dd_get_def)

text \<open>
  C1. After any sequence of canonical tuples, and for every year: the year's total is
  the sum of the values of the year's artist counter, the sum of the values of the
  year's track counter, and the sum of the durations of the year's tuples; the stream
  count is the number of the year's tuples; every artist bucket and every track bucket
  holds the sum of the durations of the year's tuples with that key, so a tuple counts
  once in the year's total, once in one artist bucket and once in one track bucket. A
  year is a key of the totals exactly when a tuple has it. The loop of \<open>main\<close> is this
  fold over the tuples of the records.
\<close>

theorem year_aggregates_exact:
  "counter_get (year_total_ms (foldl add_event no_totals evs)) y
     = sum_list (map snd (dd_get (artist_ms (foldl add_event no_totals evs)) y))
   \<and> counter_get (year_total_ms (foldl add_event no_totals evs)) y
     = sum_list (map snd (dd_get (track_ms (foldl add_event no_totals evs)) y))
   \<and> counter_get (year_total_ms (foldl add_event no_totals evs)) y
     = sum_list (map ev_ms (filter (\<lambda>e. ev_year e = y) evs))
   \<and> counter_get (year_streams (foldl add_event no_totals evs)) y
     = int (length (filter (\<lambda>e. ev_year e = y) evs))
   \<and> counter_get (dd_get (artist_ms (foldl add_event no_totals evs)) y) a
     = sum_list (map ev_ms (filter (\<lambda>e. ev_year e = y \<and> ev_artist e = a) evs))
   \<and> counter_get (dd_get (track_ms (foldl add_event no_totals evs)) y) t
     = sum_list (map ev_ms (filter (\<lambda>e. ev_year e = y \<and> ev_item e = t) evs))
   \<and> (y \<in> fst ` set (year_total_ms (foldl add_event no_totals evs))) = (y \<in> ev_year ` set evs)
   \<and> aggregate rt records = foldl add_event no_totals (events_of rt records)"
  by (simp add: fold_year_total fold_year_streams fold_artist_sum fold_track_sum
        fold_artist_bucket fold_track_bucket fold_year_keys aggregate_events)

section \<open>Normalizing: an example\<close>

text \<open>
  C2. The record with \<open>ts = "2023-05-01T10:00:00Z"\<close>, \<open>ms_played = 180000\<close>,
  \<open>trackName = "Song A"\<close> and \<open>artistName = "Artist X"\<close> normalizes to
  \<open>(2023, "song", "Artist X", "Artist X - Song A", 180000)\<close>.
\<close>

theorem normalize_record_example:
  "normalize_record rt
     [(''ts'', JStr ''2023-05-01T10:00:00Z''), (''ms_played'', JInt 180000),
      (''trackName'', JStr ''Song A''), (''artistName'', JStr ''Artist X'')]
   = Some (2023, ''song'', ''Artist X'', ''Artist X - Song A'', 180000)"
  by code_simp

section \<open>Ranking\<close>

lemma insort_rank:
  "\<forall>p \<in> set S. n < fst p \<Longrightarrow>
     map snd (insort_key rank_key (n, x) S) = insort_key (\<lambda>kv. - snd kv) x (map snd S)"
  by (induction S) (auto simp: rank_key_def less_eq_prod_def)

lemma sort_rank:
  "map snd (sort_key rank_key (enumerate n c)) = sort_key (\<lambda>kv. - snd kv) c"
proof (induction c arbitrary: n)
  case Nil
  show ?case by simp
next
  case (Cons x c)
  have "\<forall>p \<in> set (sort_key rank_key (enumerate (Suc n) c)). n < fst p"
    by (auto simp: in_set_enumerate_eq)
  then show ?case
    using Cons.IH [of "Suc n"] by (simp add: insort_rank)
qed

lemma ranking_strict: "sorted_wrt (<) (map rank_key (sort_key rank_key (enumerate 0 c)))"
proof -
  have inj: "inj_on rank_key (set (enumerate 0 c))"
    by (rule inj_onI) (auto simp: rank_key_def in_set_enumerate_eq prod_eq_iff)
  have "distinct (map rank_key (sort_key rank_key (enumerate 0 c)))"
    using inj by (simp add: distinct_map distinct_enumerate)
  moreover have "sorted (map rank_key (sort_key rank_key (enumerate 0 c)))"
    by simp
  ultimately show ?thesis
    by (simp add: strict_sorted_iff)
qed

lemma most_common_ranking: "most_common n c = take n (ranking c)"
  by (simp add: most_common_def most_common_all_def ranking_def sort_rank)

text \<open>
  C3. For every year the listing of the top artists and the listing of the top songs
  are the first \<open>TOP_N\<close> entries of the year's counter in the order of
  (duration descending, position of insertion), and these are the lines the report
  prints. The order is total: the keys of the entries are strictly increasing along
  the ranking, so no two entries tie. The listing is a function of the counter, hence
  the same for the same input.
\<close>

theorem top_n_is_ranking_prefix:
  "most_common n c = take n (ranking c)
   \<and> top_artists s y = take TOP_N (ranking (dd_get (artist_ms s) y))
   \<and> top_songs s y = take TOP_N (ranking (dd_get (track_ms s) y))
   \<and> sorted_wrt (<) (map rank_key (sort_key rank_key (enumerate 0 c)))
   \<and> report_year s y
       = [Print_year y,
          Print_total_listening (counter_get (year_total_ms s) y),
          Print_total_streams (counter_get (year_streams s) y),
          Print_top_artists TOP_N]
         @ map (\<lambda>kv. Print_artist (fst kv) (snd kv))
               (take TOP_N (ranking (dd_get (artist_ms s) y)))
         @ [Print_top_songs TOP_N]
         @ map (\<lambda>kv. Print_song (fst kv) (snd kv))
               (take TOP_N (ranking (dd_get (track_ms s) y)))
         @ [Print_blank]
         @ (if SAVE_CSV
            then [save_counter_csv (''out/'' @ str_int y @ ''_top_artists.csv'')
                    (dd_get (artist_ms s) y) ''artist'' ''ms_listened'',
                  save_counter_csv (''out/'' @ str_int y @ ''_top_songs.csv'')
                    (dd_get (track_ms s) y) ''song'' ''ms_listened'']
            else [])"
  by (simp add: most_common_ranking [symmetric] top_artists_def top_songs_def report_year_def
        ranking_strict)

section \<open>Permuted input\<close>

lemma fold_artist_keys:
  "fst ` set (dd_get (artist_ms (foldl add_event s evs)) y) =
     fst ` set (dd_get (artist_ms s) y) \<union> ev_artist ` set (filter (\<lambda>e. ev_year e = y) evs)"
  by (induction evs arbitrary: s)
     (auto simp: add_event_def dd_get_add keys_counter_add ev_year_def ev_artist_def
           split: prod.splits)

lemma fold_track_keys:
  "fst ` set (dd_get (track_ms (foldl add_event s evs)) y) =
     fst ` set (dd_get (track_ms s) y) \<union> ev_item ` set (filter (\<lambda>e. ev_year e = y) evs)"
  by (induction evs arbitrary: s)
     (auto simp: add_event_def dd_get_add keys_counter_add ev_year_def ev_item_def
           split: prod.splits)

lemma fold_artist_distinct:
  "\<forall>y. distinct (map fst (dd_get (artist_ms s) y)) \<Longrightarrow>
     distinct (map fst (dd_get (artist_ms (foldl add_event s evs)) y))"
  by (induction evs arbitrary: s)
     (auto simp: add_event_def dd_get_add distinct_counter_add split: prod.splits)

lemma fold_track_distinct:
  "\<forall>y. distinct (map fst (dd_get (track_ms s) y)) \<Longrightarrow>
     distinct (map fst (dd_get (track_ms (foldl add_event s evs)) y))"
  by (induction evs arbitrary: s)
     (auto simp: add_event_def dd_get_add distinct_counter_add split: prod.splits)

lemma fold_year_distinct:
  "distinct (map fst (year_total_ms s)) \<Longrightarrow>
     distinct (map fst (year_total_ms (foldl add_event s evs)))"
  by (induction evs arbitrary: s)
     (auto simp: add_event_def distinct_counter_add split: prod.splits)

lemma counter_mset_eqI:
  assumes d1: "distinct (map fst c1)" and d2: "distinct (map fst c2)"
    and keys: "fst ` set c1 = fst ` set c2"
    and vals: "\<And>k. counter_get c1 k = counter_get c2 k"
  shows "mset c1 = mset c2"
proof -
  have "map_of c1 k = map_of c2 k" for k
  proof (cases "k \<in> fst ` set c1")
    case True
    then obtain v1 where v1: "map_of c1 k = Some v1"
      by (metis map_of_eq_None_iff not_Some_eq)
    from True keys obtain v2 where v2: "map_of c2 k = Some v2"
      by (metis map_of_eq_None_iff not_Some_eq)
    from vals [of k] v1 v2 show ?thesis by (simp add: counter_get_def)
  next
    case False
    then have "map_of c1 k = None" by (simp add: map_of_eq_None_iff)
    moreover from False keys have "map_of c2 k = None" by (simp add: map_of_eq_None_iff)
    ultimately show ?thesis by simp
  qed
  then have "map_of c1 = map_of c2" by (rule ext)
  with d1 d2 have "set c1 = set c2" by (simp add: map_of_inject_set)
  moreover have "distinct c1" "distinct c2"
    using d1 d2 by (simp_all add: distinct_map)
  ultimately show ?thesis by (simp add: set_eq_iff_mset_eq_distinct)
qed

lemma sum_filter_mset:
  fixes f :: "'a \<Rightarrow> int"
  shows "mset xs = mset ys \<Longrightarrow> sum_list (map f (filter P xs)) = sum_list (map f (filter P ys))"
proof -
  assume "mset xs = mset ys"
  then have "mset (map f (filter P xs)) = mset (map f (filter P ys))" by simp
  then have "sum_mset (mset (map f (filter P xs))) = sum_mset (mset (map f (filter P ys)))"
    by (rule arg_cong)
  then show ?thesis by (simp only: sum_mset_sum_list)
qed

lemma length_filter_mset:
  "mset xs = mset ys \<Longrightarrow> length (filter P xs) = length (filter P ys)"
  by (metis mset_filter size_mset)

lemma set_filter_mset:
  "mset xs = mset ys \<Longrightarrow> set (filter P xs) = set (filter P ys)"
  by (metis mset_filter set_mset_mset)

lemma events_of_mset: "mset rs1 = mset rs2 \<Longrightarrow> mset (events_of rt rs1) = mset (events_of rt rs2)"
  by (simp add: events_of_def List.map_filter_def)

lemma map_sort_key: "map f (sort_key f xs) = sort (map f xs)"
  by (rule sym, rule properties_for_sort) simp_all

lemma sort_key_mset_values:
  "mset c1 = mset c2 \<Longrightarrow> map f (sort_key f c1) = map f (sort_key f c2)"
proof -
  assume "mset c1 = mset c2"
  then have "mset (map f c1) = mset (map f c2)" by simp
  then have "sort (map f c1) = sort (map f c2)"
    by (simp add: properties_for_sort)
  then show ?thesis by (simp add: map_sort_key)
qed

lemma sort_key_mset_inj:
  "mset c1 = mset c2 \<Longrightarrow> inj_on f (set c1) \<Longrightarrow> sort_key f c1 = sort_key f c2"
  by (rule sort_key_inj_key_eq) simp_all

lemma most_common_values:
  assumes "mset c1 = mset c2"
  shows "map snd (most_common n c1) = map snd (most_common n c2)"
proof -
  have "map (\<lambda>kv. - snd kv) (most_common_all c1) = map (\<lambda>kv. - snd kv) (most_common_all c2)"
    unfolding most_common_all_def using assms by (rule sort_key_mset_values)
  then have "map uminus (map (\<lambda>kv. - snd kv) (most_common_all c1))
      = map uminus (map (\<lambda>kv. - snd kv) (most_common_all c2))"
    by (rule arg_cong)
  then have "map snd (most_common_all c1) = map snd (most_common_all c2)"
    by (simp add: comp_def)
  then show ?thesis by (simp add: most_common_def take_map [symmetric])
qed

lemma most_common_all_no_ties:
  assumes "mset c1 = mset c2" and "distinct (map snd c1)"
  shows "most_common_all c1 = most_common_all c2"
proof -
  from assms(2) have "inj_on snd (set c1)" by (simp add: distinct_map)
  then have "inj_on (\<lambda>kv. - snd kv) (set c1)"
    by (auto simp: inj_on_def)
  with assms(1) show ?thesis
    unfolding most_common_all_def by (rule sort_key_mset_inj)
qed

lemma artist_counter_mset:
  assumes "mset rs1 = mset rs2"
  shows "mset (dd_get (artist_ms (aggregate rt rs1)) y) = mset (dd_get (artist_ms (aggregate rt rs2)) y)"
proof (rule counter_mset_eqI)
  from assms have ev: "mset (events_of rt rs1) = mset (events_of rt rs2)" by (rule events_of_mset)
  show "distinct (map fst (dd_get (artist_ms (aggregate rt rs1)) y))"
    by (simp add: aggregate_events fold_artist_distinct)
  show "distinct (map fst (dd_get (artist_ms (aggregate rt rs2)) y))"
    by (simp add: aggregate_events fold_artist_distinct)
  show "fst ` set (dd_get (artist_ms (aggregate rt rs1)) y) = fst ` set (dd_get (artist_ms (aggregate rt rs2)) y)"
    using set_filter_mset [OF ev] by (simp add: aggregate_events fold_artist_keys)
  show "counter_get (dd_get (artist_ms (aggregate rt rs1)) y) k
      = counter_get (dd_get (artist_ms (aggregate rt rs2)) y) k" for k
    using sum_filter_mset [OF ev] by (simp add: aggregate_events fold_artist_bucket)
qed

lemma track_counter_mset:
  assumes "mset rs1 = mset rs2"
  shows "mset (dd_get (track_ms (aggregate rt rs1)) y) = mset (dd_get (track_ms (aggregate rt rs2)) y)"
proof (rule counter_mset_eqI)
  from assms have ev: "mset (events_of rt rs1) = mset (events_of rt rs2)" by (rule events_of_mset)
  show "distinct (map fst (dd_get (track_ms (aggregate rt rs1)) y))"
    by (simp add: aggregate_events fold_track_distinct)
  show "distinct (map fst (dd_get (track_ms (aggregate rt rs2)) y))"
    by (simp add: aggregate_events fold_track_distinct)
  show "fst ` set (dd_get (track_ms (aggregate rt rs1)) y) = fst ` set (dd_get (track_ms (aggregate rt rs2)) y)"
    using set_filter_mset [OF ev] by (simp add: aggregate_events fold_track_keys)
  show "counter_get (dd_get (track_ms (aggregate rt rs1)) y) k
      = counter_get (dd_get (track_ms (aggregate rt rs2)) y) k" for k
    using sum_filter_mset [OF ev] by (simp add: aggregate_events fold_track_bucket)
qed

lemma year_total_same:
  assumes "mset rs1 = mset rs2"
  shows "counter_get (year_total_ms (aggregate rt rs1)) y = counter_get (year_total_ms (aggregate rt rs2)) y"
  using sum_filter_mset [OF events_of_mset [OF assms]]
  by (simp add: aggregate_events fold_year_total)

lemma year_streams_same:
  assumes "mset rs1 = mset rs2"
  shows "counter_get (year_streams (aggregate rt rs1)) y = counter_get (year_streams (aggregate rt rs2)) y"
  using length_filter_mset [OF events_of_mset [OF assms]]
  by (simp add: aggregate_events fold_year_streams)

lemma usable_same:
  assumes "mset rs1 = mset rs2"
  shows "usable (aggregate rt rs1) = usable (aggregate rt rs2)"
  using events_of_mset [OF assms] by (simp add: aggregate_events fold_usable) (metis size_mset)

lemma years_same:
  assumes "mset rs1 = mset rs2"
  shows "sort (map fst (year_total_ms (aggregate rt rs1))) = sort (map fst (year_total_ms (aggregate rt rs2)))"
proof -
  from assms have ev: "mset (events_of rt rs1) = mset (events_of rt rs2)" by (rule events_of_mset)
  have d1: "distinct (sort (map fst (year_total_ms (aggregate rt rs1))))"
    by (simp add: aggregate_events fold_year_distinct)
  have d2: "distinct (sort (map fst (year_total_ms (aggregate rt rs2))))"
    by (simp add: aggregate_events fold_year_distinct)
  have "set (events_of rt rs1) = set (events_of rt rs2)"
    using ev by (metis set_mset_mset)
  then have "set (sort (map fst (year_total_ms (aggregate rt rs1))))
      = set (sort (map fst (year_total_ms (aggregate rt rs2))))"
    by (simp add: aggregate_events fold_year_keys)
  with d1 d2 show ?thesis
    by (intro sorted_distinct_set_unique) simp_all
qed

text \<open>
  C4, as stated, fails: two records of the same year with different artists and equal
  durations, given in the two possible orders, are listed in two different orders.
\<close>

theorem permuted_ties_counterexample:
  "mset [[(''ts'', JStr ''2023-05-01T10:00:00Z''), (''ms_played'', JInt 180000),
          (''trackName'', JStr ''Song A''), (''artistName'', JStr ''Artist X'')],
         [(''ts'', JStr ''2023-06-01T10:00:00Z''), (''ms_played'', JInt 180000),
          (''trackName'', JStr ''Song B''), (''artistName'', JStr ''Artist Y'')]]
   = mset [[(''ts'', JStr ''2023-06-01T10:00:00Z''), (''ms_played'', JInt 180000),
          (''trackName'', JStr ''Song B''), (''artistName'', JStr ''Artist Y'')],
         [(''ts'', JStr ''2023-05-01T10:00:00Z''), (''ms_played'', JInt 180000),
          (''trackName'', JStr ''Song A''), (''artistName'', JStr ''Artist X'')]]
   \<and> top_artists (aggregate core_runtime
        [[(''ts'', JStr ''2023-05-01T10:00:00Z''), (''ms_played'', JInt 180000),
          (''trackName'', JStr ''Song A''), (''artistName'', JStr ''Artist X'')],
         [(''ts'', JStr ''2023-06-01T10:00:00Z''), (''ms_played'', JInt 180000),
          (''trackName'', JStr ''Song B''), (''artistName'', JStr ''Artist Y'')]]) 2023
       = [(''Artist X'', 180000), (''Artist Y'', 180000)]
   \<and> top_artists (aggregate core_runtime
        [[(''ts'', JStr ''2023-06-01T10:00:00Z''), (''ms_played'', JInt 180000),
          (''trackName'', JStr ''Song B''), (''artistName'', JStr ''Artist Y'')],
         [(''ts'', JStr ''2023-05-01T10:00:00Z''), (''ms_played'', JInt 180000),
          (''trackName'', JStr ''Song A''), (''artistName'', JStr ''Artist X'')]]) 2023
       = [(''Artist Y'', 180000), (''Artist X'', 180000)]
   \<and> top_artists (aggregate core_runtime
        [[(''ts'', JStr ''2023-05-01T10:00:00Z''), (''ms_played'', JInt 180000),
          (''trackName'', JStr ''Song A''), (''artistName'', JStr ''Artist X'')],
         [(''ts'', JStr ''2023-06-01T10:00:00Z''), (''ms_played'', JInt 180000),
          (''trackName'', JStr ''Song B''), (''artistName'', JStr ''Artist Y'')]]) 2023
     \<noteq> top_artists (aggregate core_runtime
        [[(''ts'', JStr ''2023-06-01T10:00:00Z''), (''ms_played'', JInt 180000),
          (''trackName'', JStr ''Song B''), (''artistName'', JStr ''Artist Y'')],
         [(''ts'', JStr ''2023-05-01T10:00:00Z''), (''ms_played'', JInt 180000),
          (''trackName'', JStr ''Song A''), (''artistName'', JStr ''Artist X'')]]) 2023"
proof (intro conjI)
  show "mset [[(''ts'', JStr ''2023-05-01T10:00:00Z''), (''ms_played'', JInt 180000),
          (''trackName'', JStr ''Song A''), (''artistName'', JStr ''Artist X'')],
         [(''ts'', JStr ''2023-06-01T10:00:00Z''), (''ms_played'', JInt 180000),
          (''trackName'', JStr ''Song B''), (''artistName'', JStr ''Artist Y'')]]
   = mset [[(''ts'', JStr ''2023-06-01T10:00:00Z''), (''ms_played'', JInt 180000),
          (''trackName'', JStr ''Song B''), (''artistName'', JStr ''Artist Y'')],
         [(''ts'', JStr ''2023-05-01T10:00:00Z''), (''ms_played'', JInt 180000),
          (''trackName'', JStr ''Song A''), (''artistName'', JStr ''Artist X'')]]"
    by (simp only: mset.simps add_mset_commute)
qed code_simp+

text \<open>The same holds whatever the runtime accepts beyond the modelled part.\<close>

lemma tied_artists_for_every_runtime:
  "mset [[(''ts'', JStr ''2023-05-01T10:00:00Z''), (''ms_played'', JInt 180000),
          (''trackName'', JStr ''Song A''), (''artistName'', JStr ''Artist X'')],
         [(''ts'', JStr ''2023-06-01T10:00:00Z''), (''ms_played'', JInt 180000),
          (''trackName'', JStr ''Song B''), (''artistName'', JStr ''Artist Y'')]]
   = mset [[(''ts'', JStr ''2023-06-01T10:00:00Z''), (''ms_played'', JInt 180000),
          (''trackName'', JStr ''Song B''), (''artistName'', JStr ''Artist Y'')],
         [(''ts'', JStr ''2023-05-01T10:00:00Z''), (''ms_played'', JInt 180000),
          (''trackName'', JStr ''Song A''), (''artistName'', JStr ''Artist X'')]]
   \<and> top_artists (aggregate rt
        [[(''ts'', JStr ''2023-05-01T10:00:00Z''), (''ms_played'', JInt 180000),
          (''trackName'', JStr ''Song A''), (''artistName'', JStr ''Artist X'')],
         [(''ts'', JStr ''2023-06-01T10:00:00Z''), (''ms_played'', JInt 180000),
          (''trackName'', JStr ''Song B''), (''artistName'', JStr ''Artist Y'')]]) 2023
       = [(''Artist X'', 180000), (''Artist Y'', 180000)]
   \<and> top_artists (aggregate rt
        [[(''ts'', JStr ''2023-06-01T10:00:00Z''), (''ms_played'', JInt 180000),
          (''trackName'', JStr ''Song B''), (''artistName'', JStr ''Artist Y'')],
         [(''ts'', JStr ''2023-05-01T10:00:00Z''), (''ms_played'', JInt 180000),
          (''trackName'', JStr ''Song A''), (''artistName'', JStr ''Artist X'')]]) 2023
       = [(''Artist Y'', 180000), (''Artist X'', 180000)]
   \<and> top_artists (aggregate rt
        [[(''ts'', JStr ''2023-05-01T10:00:00Z''), (''ms_played'', JInt 180000),
          (''trackName'', JStr ''Song A''), (''artistName'', JStr ''Artist X'')],
         [(''ts'', JStr ''2023-06-01T10:00:00Z''), (''ms_played'', JInt 180000),
          (''trackName'', JStr ''Song B''), (''artistName'', JStr ''Artist Y'')]]) 2023
     \<noteq> top_artists (aggregate rt
        [[(''ts'', JStr ''2023-06-01T10:00:00Z''), (''ms_played'', JInt 180000),
          (''trackName'', JStr ''Song B''), (''artistName'', JStr ''Artist Y'')],
         [(''ts'', JStr ''2023-05-01T10:00:00Z''), (''ms_played'', JInt 180000),
          (''trackName'', JStr ''Song A''), (''artistName'', JStr ''Artist X'')]]) 2023"
proof (intro conjI)
  show "mset [[(''ts'', JStr ''2023-05-01T10:00:00Z''), (''ms_played'', JInt 180000),
          (''trackName'', JStr ''Song A''), (''artistName'', JStr ''Artist X'')],
         [(''ts'', JStr ''2023-06-01T10:00:00Z''), (''ms_played'', JInt 180000),
          (''trackName'', JStr ''Song B''), (''artistName'', JStr ''Artist Y'')]]
   = mset [[(''ts'', JStr ''2023-06-01T10:00:00Z''), (''ms_played'', JInt 180000),
          (''trackName'', JStr ''Song B''), (''artistName'', JStr ''Artist Y'')],
         [(''ts'', JStr ''2023-05-01T10:00:00Z''), (''ms_played'', JInt 180000),
          (''trackName'', JStr ''Song A''), (''artistName'', JStr ''Artist X'')]]"
    by (simp only: mset.simps add_mset_commute)
qed code_simp+

text \<open>
  C4, amended. For two record sequences that are permutations of each other and for
  every year, the listings of the top artists and of the top songs show the same
  durations in the same order; the listings are equal when no two keys of the year's
  counter have the same cumulative duration; and when that holds for every year, for
  artists and for songs, the whole report is the same. Entries that tie are listed in
  the order in which the run has first seen them.
\<close>

theorem permuted_input_same_ranking:
  assumes "mset records1 = mset records2"
  shows "map snd (top_artists (aggregate rt records1) y) = map snd (top_artists (aggregate rt records2) y)
   \<and> map snd (top_songs (aggregate rt records1) y) = map snd (top_songs (aggregate rt records2) y)
   \<and> (distinct (map snd (dd_get (artist_ms (aggregate rt records1)) y))
        \<longrightarrow> top_artists (aggregate rt records1) y = top_artists (aggregate rt records2) y)
   \<and> (distinct (map snd (dd_get (track_ms (aggregate rt records1)) y))
        \<longrightarrow> top_songs (aggregate rt records1) y = top_songs (aggregate rt records2) y)
   \<and> ((\<forall>z. distinct (map snd (dd_get (artist_ms (aggregate rt records1)) z))
           \<and> distinct (map snd (dd_get (track_ms (aggregate rt records1)) z)))
        \<longrightarrow> report rt records1 = report rt records2)"
proof (intro conjI impI)
  note a = artist_counter_mset [OF assms] and t = track_counter_mset [OF assms]
  show "map snd (top_artists (aggregate rt records1) y) = map snd (top_artists (aggregate rt records2) y)"
    unfolding top_artists_def by (rule most_common_values [OF a])
  show "map snd (top_songs (aggregate rt records1) y) = map snd (top_songs (aggregate rt records2) y)"
    unfolding top_songs_def by (rule most_common_values [OF t])
  show "top_artists (aggregate rt records1) y = top_artists (aggregate rt records2) y"
    if "distinct (map snd (dd_get (artist_ms (aggregate rt records1)) y))"
    using most_common_all_no_ties [OF a that] by (simp add: top_artists_def most_common_def)
  show "top_songs (aggregate rt records1) y = top_songs (aggregate rt records2) y"
    if "distinct (map snd (dd_get (track_ms (aggregate rt records1)) y))"
    using most_common_all_no_ties [OF t that] by (simp add: top_songs_def most_common_def)
  show "report rt records1 = report rt records2"
    if nt: "\<forall>z. distinct (map snd (dd_get (artist_ms (aggregate rt records1)) z))
           \<and> distinct (map snd (dd_get (track_ms (aggregate rt records1)) z))"
  proof -
    have ma: "most_common_all (dd_get (artist_ms (aggregate rt records1)) z)
        = most_common_all (dd_get (artist_ms (aggregate rt records2)) z)" for z
      using nt by (intro most_common_all_no_ties artist_counter_mset assms) simp
    have mt: "most_common_all (dd_get (track_ms (aggregate rt records1)) z)
        = most_common_all (dd_get (track_ms (aggregate rt records2)) z)" for z
      using nt by (intro most_common_all_no_ties track_counter_mset assms) simp
    have "report_year (aggregate rt records1) z = report_year (aggregate rt records2) z" for z
      by (simp add: report_year_def top_artists_def top_songs_def most_common_def
            save_counter_csv_def ma mt year_total_same [OF assms] year_streams_same [OF assms])
    then have ry: "report_year (aggregate rt records1) = report_year (aggregate rt records2)"
      by (rule ext)
    show ?thesis
      by (simp add: report_def Let_def ry usable_same [OF assms] years_same [OF assms]
            year_total_same [OF assms] year_streams_same [OF assms])
  qed
qed

theorem permuted_input_same_ranking_witness:
  "mset [[(''ts'', JStr ''2023-05-01T10:00:00Z''), (''ms_played'', JInt 180000),
          (''trackName'', JStr ''Song A''), (''artistName'', JStr ''Artist X'')],
         [(''ts'', JStr ''2023-06-01T10:00:00Z''), (''ms_played'', JInt 200000),
          (''trackName'', JStr ''Song B''), (''artistName'', JStr ''Artist Y'')]]
   = mset [[(''ts'', JStr ''2023-06-01T10:00:00Z''), (''ms_played'', JInt 200000),
          (''trackName'', JStr ''Song B''), (''artistName'', JStr ''Artist Y'')],
         [(''ts'', JStr ''2023-05-01T10:00:00Z''), (''ms_played'', JInt 180000),
          (''trackName'', JStr ''Song A''), (''artistName'', JStr ''Artist X'')]]
   \<and> (\<forall>z. distinct (map snd (dd_get (artist_ms (aggregate core_runtime
        [[(''ts'', JStr ''2023-05-01T10:00:00Z''), (''ms_played'', JInt 180000),
          (''trackName'', JStr ''Song A''), (''artistName'', JStr ''Artist X'')],
         [(''ts'', JStr ''2023-06-01T10:00:00Z''), (''ms_played'', JInt 200000),
          (''trackName'', JStr ''Song B''), (''artistName'', JStr ''Artist Y'')]])) z))
         \<and> distinct (map snd (dd_get (track_ms (aggregate core_runtime
        [[(''ts'', JStr ''2023-05-01T10:00:00Z''), (''ms_played'', JInt 180000),
          (''trackName'', JStr ''Song A''), (''artistName'', JStr ''Artist X'')],
         [(''ts'', JStr ''2023-06-01T10:00:00Z''), (''ms_played'', JInt 200000),
          (''trackName'', JStr ''Song B''), (''artistName'', JStr ''Artist Y'')]])) z)))
   \<and> top_artists (aggregate core_runtime
        [[(''ts'', JStr ''2023-05-01T10:00:00Z''), (''ms_played'', JInt 180000),
          (''trackName'', JStr ''Song A''), (''artistName'', JStr ''Artist X'')],
         [(''ts'', JStr ''2023-06-01T10:00:00Z''), (''ms_played'', JInt 200000),
          (''trackName'', JStr ''Song B''), (''artistName'', JStr ''Artist Y'')]]) 2023
     = top_artists (aggregate core_runtime
        [[(''ts'', JStr ''2023-06-01T10:00:00Z''), (''ms_played'', JInt 200000),
          (''trackName'', JStr ''Song B''), (''artistName'', JStr ''Artist Y'')],
         [(''ts'', JStr ''2023-05-01T10:00:00Z''), (''ms_played'', JInt 180000),
          (''trackName'', JStr ''Song A''), (''artistName'', JStr ''Artist X'')]]) 2023
   \<and> top_songs (aggregate core_runtime
        [[(''ts'', JStr ''2023-05-01T10:00:00Z''), (''ms_played'', JInt 180000),
          (''trackName'', JStr ''Song A''), (''artistName'', JStr ''Artist X'')],
         [(''ts'', JStr ''2023-06-01T10:00:00Z''), (''ms_played'', JInt 200000),
          (''trackName'', JStr ''Song B''), (''artistName'', JStr ''Artist Y'')]]) 2023
     = top_songs (aggregate core_runtime
        [[(''ts'', JStr ''2023-06-01T10:00:00Z''), (''ms_played'', JInt 200000),
          (''trackName'', JStr ''Song B''), (''artistName'', JStr ''Artist Y'')],
         [(''ts'', JStr ''2023-05-01T10:00:00Z''), (''ms_played'', JInt 180000),
          (''trackName'', JStr ''Song A''), (''artistName'', JStr ''Artist X'')]]) 2023
   \<and> report core_runtime
        [[(''ts'', JStr ''2023-05-01T10:00:00Z''), (''ms_played'', JInt 180000),
          (''trackName'', JStr ''Song A''), (''artistName'', JStr ''Artist X'')],
         [(''ts'', JStr ''2023-06-01T10:00:00Z''), (''ms_played'', JInt 200000),
          (''trackName'', JStr ''Song B''), (''artistName'', JStr ''Artist Y'')]]
     = report core_runtime
        [[(''ts'', JStr ''2023-06-01T10:00:00Z''), (''ms_played'', JInt 200000),
          (''trackName'', JStr ''Song B''), (''artistName'', JStr ''Artist Y'')],
         [(''ts'', JStr ''2023-05-01T10:00:00Z''), (''ms_played'', JInt 180000),
          (''trackName'', JStr ''Song A''), (''artistName'', JStr ''Artist X'')]]"
proof -
  have m: "mset [[(''ts'', JStr ''2023-05-01T10:00:00Z''), (''ms_played'', JInt 180000),
          (''trackName'', JStr ''Song A''), (''artistName'', JStr ''Artist X'')],
         [(''ts'', JStr ''2023-06-01T10:00:00Z''), (''ms_played'', JInt 200000),
          (''trackName'', JStr ''Song B''), (''artistName'', JStr ''Artist Y'')]]
   = mset [[(''ts'', JStr ''2023-06-01T10:00:00Z''), (''ms_played'', JInt 200000),
          (''trackName'', JStr ''Song B''), (''artistName'', JStr ''Artist Y'')],
         [(''ts'', JStr ''2023-05-01T10:00:00Z''), (''ms_played'', JInt 180000),
          (''trackName'', JStr ''Song A''), (''artistName'', JStr ''Artist X'')]]"
    by (simp only: mset.simps add_mset_commute)
  have agg: "aggregate core_runtime
        [[(''ts'', JStr ''2023-05-01T10:00:00Z''), (''ms_played'', JInt 180000),
          (''trackName'', JStr ''Song A''), (''artistName'', JStr ''Artist X'')],
         [(''ts'', JStr ''2023-06-01T10:00:00Z''), (''ms_played'', JInt 200000),
          (''trackName'', JStr ''Song B''), (''artistName'', JStr ''Artist Y'')]]
     = \<lparr>artist_ms = [(2023, [(''Artist X'', 180000), (''Artist Y'', 200000)])],
        track_ms = [(2023, [(''Artist X - Song A'', 180000), (''Artist Y - Song B'', 200000)])],
        year_total_ms = [(2023, 380000)], year_streams = [(2023, 2)], usable = 2\<rparr>"
    by code_simp
  have nt: "\<forall>z. distinct (map snd (dd_get (artist_ms (aggregate core_runtime
        [[(''ts'', JStr ''2023-05-01T10:00:00Z''), (''ms_played'', JInt 180000),
          (''trackName'', JStr ''Song A''), (''artistName'', JStr ''Artist X'')],
         [(''ts'', JStr ''2023-06-01T10:00:00Z''), (''ms_played'', JInt 200000),
          (''trackName'', JStr ''Song B''), (''artistName'', JStr ''Artist Y'')]])) z))
         \<and> distinct (map snd (dd_get (track_ms (aggregate core_runtime
        [[(''ts'', JStr ''2023-05-01T10:00:00Z''), (''ms_played'', JInt 180000),
          (''trackName'', JStr ''Song A''), (''artistName'', JStr ''Artist X'')],
         [(''ts'', JStr ''2023-06-01T10:00:00Z''), (''ms_played'', JInt 200000),
          (''trackName'', JStr ''Song B''), (''artistName'', JStr ''Artist Y'')]])) z))"
    unfolding agg by (simp add: dd_get_def)
  from permuted_input_same_ranking [OF m, where y = 2023 and rt = core_runtime] nt m show ?thesis
    by blast
qed

section \<open>Timestamp and duration of a record\<close>

lemma safe_get_find:
  "safe_get r keys =
     (case find (\<lambda>k. case map_of r k of
                       None \<Rightarrow> False
                     | Some v \<Rightarrow> v \<noteq> JNull \<and> v \<noteq> JStr [] \<and> v \<noteq> JStr ''null'') keys of
        None \<Rightarrow> None
      | Some k \<Rightarrow> map_of r k)"
  by (induction keys) (auto simp: nullish_def split: option.splits)

lemma first_some_single: "first_some [x] = x"
  by (cases x) simp_all

lemma parse_dt_first_some:
  "parse_dt rt ts =
     first_some [fromisoformat rt (clean_ts ts),
                 strptime (clean_ts ts) ''%Y-%m-%d %H:%M'',
                 strptime (clean_ts ts) ''%Y-%m-%dT%H:%M:%S'']"
  by (simp add: parse_dt_def Let_def first_some_single split: option.splits)

lemma not_space_Z: "\<not> is_space CHR ''Z''"
  by (simp add: is_space_def)

lemma dropWhile_snoc_Z: "dropWhile is_space (s @ ''Z'') = dropWhile is_space s @ ''Z''"
  by (induction s) (auto simp: not_space_Z)

lemma strip_snoc_Z: "strip (s @ ''Z'') = dropWhile is_space s @ ''Z''"
  by (simp add: strip_def dropWhile_snoc_Z not_space_Z)

lemma last_dropWhile: "dropWhile P s \<noteq> [] \<Longrightarrow> last (dropWhile P s) = last s"
  by (induction s) (auto split: if_splits)

lemma strip_no_trailing:
  assumes "s = [] \<or> \<not> is_space (last s)"
  shows "strip s = dropWhile is_space s"
proof (cases "dropWhile is_space s = []")
  case True
  show ?thesis unfolding strip_def True by simp
next
  case False
  then have "s \<noteq> []" by auto
  with assms False have "\<not> is_space (last (dropWhile is_space s))"
    by (simp add: last_dropWhile)
  then have "\<not> is_space (hd (rev (dropWhile is_space s)))"
    using False by (simp add: hd_rev)
  then have "dropWhile is_space (rev (dropWhile is_space s)) = rev (dropWhile is_space s)"
    using False by (cases "rev (dropWhile is_space s)") auto
  then show ?thesis by (simp add: strip_def)
qed

lemma clean_ts_Z:
  "s = [] \<or> \<not> is_space (last s) \<Longrightarrow> clean_ts (JStr (s @ ''Z'')) = strip s"
  by (simp add: clean_ts_def py_str_def strip_snoc_Z endswith_Z_def strip_no_trailing)

lemma normalize_Some_dt:
  assumes "normalize_record_with rt inc r = Some e"
  shows "\<exists>ts dt. safe_get r ts_keys = Some ts \<and> parse_dt rt ts = Some dt \<and> ev_year e = dt_year dt
           \<and> ev_ms e = resolve_ms rt r \<and> 0 < resolve_ms rt r"
  using assms
  by (auto simp: normalize_record_with_def resolve_dt_def classify_def labelled_def Let_def
        ev_year_def ev_ms_def split: option.splits if_splits)

lemma normalize_no_dt: "resolve_dt rt r = None \<Longrightarrow> normalize_record_with rt inc r = None"
  by (simp add: normalize_record_with_def)

lemma normalize_no_ms: "resolve_ms rt r \<le> 0 \<Longrightarrow> normalize_record_with rt inc r = None"
  by (simp add: normalize_record_with_def split: option.splits)

lemma new_datetime_year:
  "new_datetime y mo d h mi s us tz = Some dt \<Longrightarrow> 1 \<le> dt_year dt \<and> dt_year dt \<le> 9999"
  by (auto simp: new_datetime_def split: if_splits)

lemma take_digits_4: "take_digits 4 s = Some x \<Longrightarrow> 4 \<le> length s \<and> list_all is_digit (take 4 s)"
  by (auto simp: take_digits_def split: if_splits)

lemma iso_core_year:
  assumes "iso_core s = Some dt"
  shows "year_first s \<and> 1 \<le> dt_year dt \<and> dt_year dt \<le> 9999"
proof -
  from assms obtain y mo d where p: "parse_isoformat_date (take 10 s) = Some (y, mo, d)"
    by (auto simp: iso_core_def split: option.splits)
  then obtain x where "take_digits 4 (take 10 s) = Some x"
    by (auto simp: parse_isoformat_date_def split: option.splits)
  then have "4 \<le> length (take 10 s) \<and> list_all is_digit (take 4 (take 10 s))"
    by (rule take_digits_4)
  then have yf: "year_first s" by (simp add: year_first_def min_def split: if_splits)
  from assms p have "1 \<le> dt_year dt \<and> dt_year dt \<le> 9999"
    by (auto simp: iso_core_def Let_def dest!: new_datetime_year split: option.splits if_splits)
  with yf show ?thesis by simp
qed

lemma fromisoformat_year:
  "fromisoformat rt s = Some dt \<Longrightarrow> year_first s \<and> 1 \<le> dt_year dt \<and> dt_year dt \<le> 9999"
  by (auto simp: fromisoformat_def dest: iso_core_year split: option.splits if_splits)

lemma match4:
  "match_classes [is_digit, is_digit, is_digit, is_digit] s = Some x \<Longrightarrow> year_first s"
  by (cases s; cases "tl s"; cases "tl (tl s)"; cases "tl (tl (tl s))")
     (auto simp: year_first_def split: if_splits)

lemma strptime_match_Y:
  "strptime_match (Dir CHR ''Y'' # fs) s acc = Some x \<Longrightarrow> year_first s"
  by (auto simp: directive_alts_def dest: match4 split: option.splits)

lemma format1: "parse_format ''%Y-%m-%d %H:%M''
    = [Dir CHR ''Y'', Lit CHR ''-'', Dir CHR ''m'', Lit CHR ''-'', Dir CHR ''d'', Spaces,
       Dir CHR ''H'', Lit CHR '':'', Dir CHR ''M'']"
  by code_simp

lemma format2: "parse_format ''%Y-%m-%dT%H:%M:%S''
    = [Dir CHR ''Y'', Lit CHR ''-'', Dir CHR ''m'', Lit CHR ''-'', Dir CHR ''d'', Lit CHR ''T'',
       Dir CHR ''H'', Lit CHR '':'', Dir CHR ''M'', Lit CHR '':'', Dir CHR ''S'']"
  by code_simp

lemma strptime_year:
  assumes "strptime s fmt = Some dt"
    and "fmt = ''%Y-%m-%d %H:%M'' \<or> fmt = ''%Y-%m-%dT%H:%M:%S''"
  shows "year_first s \<and> 1 \<le> dt_year dt \<and> dt_year dt \<le> 9999"
proof -
  from assms(1) obtain x where m: "strptime_match (parse_format fmt) s [] = Some x"
    by (auto simp: strptime_def split: option.splits)
  from assms(2) m have "year_first s"
    by (auto simp only: format1 format2 dest: strptime_match_Y)
  moreover from assms(1) have "1 \<le> dt_year dt \<and> dt_year dt \<le> 9999"
    by (auto simp: strptime_def dest!: new_datetime_year split: option.splits if_splits)
  ultimately show ?thesis by simp
qed

lemma parse_dt_year:
  "parse_dt rt ts = Some dt \<Longrightarrow> year_first (clean_ts ts) \<and> 1 \<le> dt_year dt \<and> dt_year dt \<le> 9999"
  by (auto simp: parse_dt_def Let_def split: option.splits
      dest: fromisoformat_year strptime_year)

lemma fromisoformat_core: "iso_core s = Some dt \<Longrightarrow> fromisoformat rt s = Some dt"
  by (simp add: fromisoformat_def)

text \<open>
  C5, as stated, fails: in the record below the first candidate field that is present
  with a value that is neither null nor the empty string is \<open>ts\<close>, its value
  \<open>"null"\<close> parses under no format, and yet the record is normalized, from
  \<open>endTime\<close>.
\<close>

theorem null_string_timestamp_counterexample:
  "first_present
     [(''ts'', JStr ''null''), (''endTime'', JStr ''2023-05-01T10:00:00''),
      (''ms_played'', JInt 180000), (''trackName'', JStr ''Song A''),
      (''artistName'', JStr ''Artist X'')] ts_keys = Some (JStr ''null'')
   \<and> parse_dt core_runtime (JStr ''null'') = None
   \<and> normalize_record core_runtime
     [(''ts'', JStr ''null''), (''endTime'', JStr ''2023-05-01T10:00:00''),
      (''ms_played'', JInt 180000), (''trackName'', JStr ''Song A''),
      (''artistName'', JStr ''Artist X'')]
     = Some (2023, ''song'', ''Artist X'', ''Artist X - Song A'', 180000)"
  by (intro conjI) code_simp+

text \<open>The same holds whatever the runtime accepts beyond the modelled part.\<close>

lemma null_timestamp_for_every_runtime:
  "first_present
     [(''ts'', JStr ''null''), (''endTime'', JStr ''2023-05-01T10:00:00''),
      (''ms_played'', JInt 180000), (''trackName'', JStr ''Song A''),
      (''artistName'', JStr ''Artist X'')] ts_keys = Some (JStr ''null'')
   \<and> parse_dt rt (JStr ''null'') = None
   \<and> normalize_record rt
     [(''ts'', JStr ''null''), (''endTime'', JStr ''2023-05-01T10:00:00''),
      (''ms_played'', JInt 180000), (''trackName'', JStr ''Song A''),
      (''artistName'', JStr ''Artist X'')]
     = Some (2023, ''song'', ''Artist X'', ''Artist X - Song A'', 180000)"
  by (intro conjI) code_simp+

text \<open>
  C5, amended. The timestamp of a record is the value of the first of the fields
  \<open>ts\<close>, \<open>endTime\<close>, \<open>timestamp\<close>, \<open>played_at\<close> that is present with a
  value that is not null, not the empty string and not the string \<open>"null"\<close>. A
  text without trailing whitespace that is followed by \<open>Z\<close> is parsed as the
  text, stripped. Parsing tries \<open>fromisoformat\<close>, then the format
  \<open>%Y-%m-%d %H:%M\<close>, then \<open>%Y-%m-%dT%H:%M:%S\<close>, and takes the first success. Where
  no such field exists, or its value parses under none of the three,
  \<open>normalize_record\<close> returns nothing; every tuple it returns carries the year of
  the parsed timestamp. Under every runtime a text of the documented grammar is
  accepted by \<open>fromisoformat\<close>, and a text that parses at all starts with four
  digits and gives a year from 1 to 9999: a record whose timestamp text does not start
  with four digits is discarded, as the record with \<open>ts = "not-a-date"\<close> is.
\<close>

theorem timestamp_resolution:
  "safe_get r ts_keys =
     (case find (\<lambda>k. case map_of r k of
                       None \<Rightarrow> False
                     | Some v \<Rightarrow> v \<noteq> JNull \<and> v \<noteq> JStr [] \<and> v \<noteq> JStr ''null'')
                [''ts'', ''endTime'', ''timestamp'', ''played_at''] of
        None \<Rightarrow> None
      | Some k \<Rightarrow> map_of r k)
   \<and> (s = [] \<or> \<not> is_space (last s) \<longrightarrow> clean_ts (JStr (s @ ''Z'')) = strip s)
   \<and> parse_dt rt ts =
       first_some [fromisoformat rt (clean_ts ts),
                   strptime (clean_ts ts) ''%Y-%m-%d %H:%M'',
                   strptime (clean_ts ts) ''%Y-%m-%dT%H:%M:%S'']
   \<and> (iso_core s = Some dt \<longrightarrow> fromisoformat rt s = Some dt)
   \<and> (parse_dt rt ts = Some dt \<longrightarrow>
        year_first (clean_ts ts) \<and> 1 \<le> dt_year dt \<and> dt_year dt \<le> 9999)
   \<and> (safe_get r ts_keys = None \<longrightarrow> normalize_record rt r = None)
   \<and> (safe_get r ts_keys = Some ts \<and> parse_dt rt ts = None \<longrightarrow> normalize_record rt r = None)
   \<and> (safe_get r ts_keys = Some ts \<and> \<not> year_first (clean_ts ts)
        \<longrightarrow> normalize_record rt r = None)
   \<and> (normalize_record rt r = Some e \<longrightarrow>
        (\<exists>ts dt. safe_get r ts_keys = Some ts \<and> parse_dt rt ts = Some dt
                 \<and> ev_year e = dt_year dt))
   \<and> normalize_record rt
        [(''ts'', JStr ''not-a-date''), (''ms_played'', JInt 180000),
         (''trackName'', JStr ''Song A''), (''artistName'', JStr ''Artist X'')] = None"
proof (intro conjI impI)
  show "safe_get r ts_keys =
     (case find (\<lambda>k. case map_of r k of
                       None \<Rightarrow> False
                     | Some v \<Rightarrow> v \<noteq> JNull \<and> v \<noteq> JStr [] \<and> v \<noteq> JStr ''null'')
                [''ts'', ''endTime'', ''timestamp'', ''played_at''] of
        None \<Rightarrow> None
      | Some k \<Rightarrow> map_of r k)"
    unfolding ts_keys_def by (rule safe_get_find)
  show "clean_ts (JStr (s @ ''Z'')) = strip s" if "s = [] \<or> \<not> is_space (last s)"
    using that by (rule clean_ts_Z)
  show "parse_dt rt ts =
       first_some [fromisoformat rt (clean_ts ts),
                   strptime (clean_ts ts) ''%Y-%m-%d %H:%M'',
                   strptime (clean_ts ts) ''%Y-%m-%dT%H:%M:%S'']"
    by (rule parse_dt_first_some)
  show "fromisoformat rt s = Some dt" if "iso_core s = Some dt"
    using that by (rule fromisoformat_core)
  show "year_first (clean_ts ts)" "1 \<le> dt_year dt" "dt_year dt \<le> 9999"
    if "parse_dt rt ts = Some dt"
    using parse_dt_year [OF that] by simp_all
  show "normalize_record rt r = None" if "safe_get r ts_keys = None"
    using that by (simp add: normalize_record_def normalize_no_dt resolve_dt_def)
  show "normalize_record rt r = None" if "safe_get r ts_keys = Some ts \<and> parse_dt rt ts = None"
    using that by (simp add: normalize_record_def normalize_no_dt resolve_dt_def)
  show "normalize_record rt r = None"
    if h: "safe_get r ts_keys = Some ts \<and> \<not> year_first (clean_ts ts)"
  proof -
    from h have "parse_dt rt ts = None"
      using parse_dt_year [of rt ts] by (cases "parse_dt rt ts") auto
    with h show ?thesis
      by (simp add: normalize_record_def normalize_no_dt resolve_dt_def)
  qed
  show "\<exists>ts dt. safe_get r ts_keys = Some ts \<and> parse_dt rt ts = Some dt \<and> ev_year e = dt_year dt"
    if "normalize_record rt r = Some e"
    using normalize_Some_dt [of rt INCLUDE_PODCASTS_AUDIOBOOKS r e] that
    by (auto simp: normalize_record_def)
  show "normalize_record rt
        [(''ts'', JStr ''not-a-date''), (''ms_played'', JInt 180000),
         (''trackName'', JStr ''Song A''), (''artistName'', JStr ''Artist X'')] = None"
    by code_simp
qed

theorem timestamp_resolution_witness:
  "safe_get [] ts_keys = None \<and> normalize_record core_runtime [] = None
   \<and> safe_get [(''ts'', JStr ''not-a-date''), (''ms_played'', JInt 180000),
         (''trackName'', JStr ''Song A''), (''artistName'', JStr ''Artist X'')] ts_keys = Some (JStr ''not-a-date'')
   \<and> parse_dt core_runtime (JStr ''not-a-date'') = None
   \<and> \<not> year_first (clean_ts (JStr ''not-a-date''))
   \<and> normalize_record core_runtime [(''ts'', JStr ''not-a-date''), (''ms_played'', JInt 180000),
         (''trackName'', JStr ''Song A''), (''artistName'', JStr ''Artist X'')] = None
   \<and> iso_core ''2023-05-01T10:00:00'' = Some \<lparr>dt_year = 2023, dt_month = 5, dt_day = 1, dt_hour = 10, dt_minute = 0,
          dt_second = 0, dt_microsecond = 0, dt_utcoffset = None\<rparr>
   \<and> fromisoformat core_runtime ''2023-05-01T10:00:00'' = Some \<lparr>dt_year = 2023, dt_month = 5, dt_day = 1, dt_hour = 10, dt_minute = 0,
          dt_second = 0, dt_microsecond = 0, dt_utcoffset = None\<rparr>
   \<and> parse_dt core_runtime (JStr ''2023-05-01 10:00'') = Some \<lparr>dt_year = 2023, dt_month = 5, dt_day = 1, dt_hour = 10, dt_minute = 0,
          dt_second = 0, dt_microsecond = 0, dt_utcoffset = None\<rparr>
   \<and> year_first (clean_ts (JStr ''2023-05-01 10:00''))
   \<and> normalize_record core_runtime [(''endTime'', JStr ''2023-05-01 10:00''), (''msPlayed'', JInt 180000),
         (''trackName'', JStr ''Song A''), (''artistName'', JStr ''Artist X'')] = Some (2023, ''song'', ''Artist X'', ''Artist X - Song A'', 180000)
   \<and> (\<exists>ts dt. safe_get [(''endTime'', JStr ''2023-05-01 10:00''), (''msPlayed'', JInt 180000),
         (''trackName'', JStr ''Song A''), (''artistName'', JStr ''Artist X'')] ts_keys = Some ts
          \<and> parse_dt core_runtime ts = Some dt \<and> ev_year (2023, ''song'', ''Artist X'', ''Artist X - Song A'', 180000) = dt_year dt)
   \<and> \<not> is_space (last ''2023-05-01T10:00:00'')
   \<and> clean_ts (JStr (''2023-05-01T10:00:00'' @ ''Z'')) = strip ''2023-05-01T10:00:00''"
proof -
  have a: "safe_get [] ts_keys = None"
    by code_simp
  have b: "safe_get [(''ts'', JStr ''not-a-date''), (''ms_played'', JInt 180000),
         (''trackName'', JStr ''Song A''), (''artistName'', JStr ''Artist X'')] ts_keys = Some (JStr ''not-a-date'')"
    "parse_dt core_runtime (JStr ''not-a-date'') = None"
    "\<not> year_first (clean_ts (JStr ''not-a-date''))"
    by code_simp+
  have c: "normalize_record core_runtime [(''endTime'', JStr ''2023-05-01 10:00''), (''msPlayed'', JInt 180000),
         (''trackName'', JStr ''Song A''), (''artistName'', JStr ''Artist X'')] = Some (2023, ''song'', ''Artist X'', ''Artist X - Song A'', 180000)"
    by code_simp
  have d: "\<not> is_space (last ''2023-05-01T10:00:00'')"
    by code_simp
  have e: "iso_core ''2023-05-01T10:00:00'' = Some \<lparr>dt_year = 2023, dt_month = 5, dt_day = 1, dt_hour = 10, dt_minute = 0,
          dt_second = 0, dt_microsecond = 0, dt_utcoffset = None\<rparr>"
    by code_simp
  have f: "parse_dt core_runtime (JStr ''2023-05-01 10:00'') = Some \<lparr>dt_year = 2023, dt_month = 5, dt_day = 1, dt_hour = 10, dt_minute = 0,
          dt_second = 0, dt_microsecond = 0, dt_utcoffset = None\<rparr>"
    by code_simp
  note t = timestamp_resolution [where rt = core_runtime]
  from t [where r = "[]"] a
  have a': "normalize_record core_runtime [] = None" by blast
  from t [where r = "[(''ts'', JStr ''not-a-date''), (''ms_played'', JInt 180000),
         (''trackName'', JStr ''Song A''), (''artistName'', JStr ''Artist X'')]" and ts = "JStr ''not-a-date''"] b
  have b': "normalize_record core_runtime [(''ts'', JStr ''not-a-date''), (''ms_played'', JInt 180000),
         (''trackName'', JStr ''Song A''), (''artistName'', JStr ''Artist X'')] = None"
    by blast
  from t [where r = "[(''endTime'', JStr ''2023-05-01 10:00''), (''msPlayed'', JInt 180000),
         (''trackName'', JStr ''Song A''), (''artistName'', JStr ''Artist X'')]" and e = "(2023, ''song'', ''Artist X'', ''Artist X - Song A'', 180000)"] c
  have c': "\<exists>ts dt. safe_get [(''endTime'', JStr ''2023-05-01 10:00''), (''msPlayed'', JInt 180000),
         (''trackName'', JStr ''Song A''), (''artistName'', JStr ''Artist X'')] ts_keys = Some ts
          \<and> parse_dt core_runtime ts = Some dt \<and> ev_year (2023, ''song'', ''Artist X'', ''Artist X - Song A'', 180000) = dt_year dt"
    by blast
  from t [where s = "''2023-05-01T10:00:00''"] d
  have d': "clean_ts (JStr (''2023-05-01T10:00:00'' @ ''Z'')) = strip ''2023-05-01T10:00:00''"
    by blast
  from t [where s = "''2023-05-01T10:00:00''" and dt = "\<lparr>dt_year = 2023, dt_month = 5, dt_day = 1, dt_hour = 10, dt_minute = 0,
          dt_second = 0, dt_microsecond = 0, dt_utcoffset = None\<rparr>"] e
  have e': "fromisoformat core_runtime ''2023-05-01T10:00:00'' = Some \<lparr>dt_year = 2023, dt_month = 5, dt_day = 1, dt_hour = 10, dt_minute = 0,
          dt_second = 0, dt_microsecond = 0, dt_utcoffset = None\<rparr>"
    by blast
  from t [where ts = "JStr ''2023-05-01 10:00''" and dt = "\<lparr>dt_year = 2023, dt_month = 5, dt_day = 1, dt_hour = 10, dt_minute = 0,
          dt_second = 0, dt_microsecond = 0, dt_utcoffset = None\<rparr>"] f
  have f': "year_first (clean_ts (JStr ''2023-05-01 10:00''))"
    by blast
  from a a' b b' c c' d d' e e' f f' show ?thesis by blast
qed

text \<open>
  C6. The duration of a record is the value that \<open>safe_get\<close> finds under
  \<open>ms_played\<close>, \<open>msPlayed\<close>, \<open>play_duration_ms\<close>, in this order, turned into
  an integer, and 0 where nothing is found or \<open>int()\<close> raises. A record whose duration
  is at most 0 is discarded, whatever its other fields and whether or not podcasts and
  audiobooks are included; so is a record with \<open>ms_played = 0\<close> and a record with none
  of the three fields, and a record whose value \<open>int()\<close> rejects. Every tuple returned
  carries this duration, which is positive. \<open>int()\<close> returns an integer as it is, 0 or
  1 for a boolean and the truncation of a real, raises on a list and on an object, and
  on an ASCII text of at most 640 characters decides as \<open>int_core\<close> does under every
  runtime.
\<close>

theorem duration_resolution:
  "resolve_ms rt r =
     (case safe_get r [''ms_played'', ''msPlayed'', ''play_duration_ms''] of
        None \<Rightarrow> 0
      | Some v \<Rightarrow> (case py_int rt v of None \<Rightarrow> 0 | Some n \<Rightarrow> n))
   \<and> (resolve_ms rt r \<le> 0 \<longrightarrow> normalize_record_with rt inc r = None \<and> normalize_record rt r = None)
   \<and> (normalize_record_with rt inc r = Some e \<longrightarrow> ev_ms e = resolve_ms rt r \<and> 0 < ev_ms e)
   \<and> (normalize_record rt r = Some e \<longrightarrow> ev_ms e = resolve_ms rt r \<and> 0 < ev_ms e)
   \<and> (map_of r ''ms_played'' = Some (JInt 0) \<longrightarrow> normalize_record rt r = None)
   \<and> (map_of r ''ms_played'' = None \<and> map_of r ''msPlayed'' = None
        \<and> map_of r ''play_duration_ms'' = None \<longrightarrow> normalize_record rt r = None)
   \<and> (safe_get r ms_keys = Some v \<and> py_int rt v = None \<longrightarrow> normalize_record rt r = None)
   \<and> py_int rt (JInt i) = Some i
   \<and> py_int rt (JBool b) = Some (if b then 1 else 0)
   \<and> py_int rt (JFloat x) = float_int x
   \<and> py_int rt (JList xs) = None
   \<and> py_int rt (JObj kvs) = None
   \<and> (list_all is_ascii t \<and> int (length t) \<le> 640 \<longrightarrow> py_int rt (JStr t) = int_core t)"
proof (intro conjI impI)
  show "resolve_ms rt r =
     (case safe_get r [''ms_played'', ''msPlayed'', ''play_duration_ms''] of
        None \<Rightarrow> 0
      | Some v \<Rightarrow> (case py_int rt v of None \<Rightarrow> 0 | Some n \<Rightarrow> n))"
    by (simp add: resolve_ms_def ms_keys_def)
  show "normalize_record_with rt inc r = None" if "resolve_ms rt r \<le> 0"
    using that by (rule normalize_no_ms)
  show "normalize_record rt r = None" if "resolve_ms rt r \<le> 0"
    using that by (simp add: normalize_record_def normalize_no_ms)
  show "ev_ms e = resolve_ms rt r" "0 < ev_ms e" if "normalize_record_with rt inc r = Some e"
    using normalize_Some_dt [OF that] by auto
  show "ev_ms e = resolve_ms rt r" "0 < ev_ms e" if "normalize_record rt r = Some e"
    using normalize_Some_dt [of rt INCLUDE_PODCASTS_AUDIOBOOKS r e] that
    by (auto simp: normalize_record_def)
  show "normalize_record rt r = None" if "map_of r ''ms_played'' = Some (JInt 0)"
  proof -
    from that have "resolve_ms rt r = 0"
      by (simp add: resolve_ms_def ms_keys_def nullish_def py_int_def)
    then show ?thesis by (simp add: normalize_record_def normalize_no_ms)
  qed
  show "normalize_record rt r = None"
    if "map_of r ''ms_played'' = None \<and> map_of r ''msPlayed'' = None
        \<and> map_of r ''play_duration_ms'' = None"
  proof -
    from that have "resolve_ms rt r = 0"
      by (simp add: resolve_ms_def ms_keys_def)
    then show ?thesis by (simp add: normalize_record_def normalize_no_ms)
  qed
  show "normalize_record rt r = None" if "safe_get r ms_keys = Some v \<and> py_int rt v = None"
  proof -
    from that have "resolve_ms rt r = 0"
      by (simp add: resolve_ms_def)
    then show ?thesis by (simp add: normalize_record_def normalize_no_ms)
  qed
  show "py_int rt (JInt i) = Some i" "py_int rt (JBool b) = Some (if b then 1 else 0)"
    "py_int rt (JFloat x) = float_int x" "py_int rt (JList xs) = None"
    "py_int rt (JObj kvs) = None"
    by (simp_all add: py_int_def)
  show "py_int rt (JStr t) = int_core t" if "list_all is_ascii t \<and> int (length t) \<le> 640"
    using that by (simp add: py_int_def int_of_str_def)
qed

theorem duration_resolution_witness:
  "resolve_ms core_runtime [(''ts'', JStr ''2023-05-01T10:00:00Z''), (''ms_played'', JInt 0),
               (''trackName'', JStr ''Song A''), (''artistName'', JStr ''Artist X'')] \<le> 0
   \<and> map_of [(''ts'', JStr ''2023-05-01T10:00:00Z''), (''ms_played'', JInt 0),
               (''trackName'', JStr ''Song A''), (''artistName'', JStr ''Artist X'')] ''ms_played''
       = Some (JInt 0)
   \<and> normalize_record core_runtime [(''ts'', JStr ''2023-05-01T10:00:00Z''), (''ms_played'', JInt 0),
               (''trackName'', JStr ''Song A''), (''artistName'', JStr ''Artist X'')] = None
   \<and> map_of [(''ts'', JStr ''2023-05-01T10:00:00Z''),
               (''trackName'', JStr ''Song A''), (''artistName'', JStr ''Artist X'')] ''ms_played'' = None
   \<and> map_of [(''ts'', JStr ''2023-05-01T10:00:00Z''),
               (''trackName'', JStr ''Song A''), (''artistName'', JStr ''Artist X'')] ''msPlayed'' = None
   \<and> map_of [(''ts'', JStr ''2023-05-01T10:00:00Z''),
               (''trackName'', JStr ''Song A''), (''artistName'', JStr ''Artist X'')] ''play_duration_ms''
       = None
   \<and> normalize_record core_runtime [(''ts'', JStr ''2023-05-01T10:00:00Z''),
               (''trackName'', JStr ''Song A''), (''artistName'', JStr ''Artist X'')] = None
   \<and> normalize_record core_runtime [(''ts'', JStr ''2023-05-01T10:00:00Z''), (''msPlayed'', JStr '' 1_500 ''),
               (''trackName'', JStr ''Song A''), (''artistName'', JStr ''Artist X'')]
       = Some (2023, ''song'', ''Artist X'', ''Artist X - Song A'', 1500)
   \<and> ev_ms (2023, ''song'', ''Artist X'', ''Artist X - Song A'', 1500)
       = resolve_ms core_runtime [(''ts'', JStr ''2023-05-01T10:00:00Z''), (''msPlayed'', JStr '' 1_500 ''),
               (''trackName'', JStr ''Song A''), (''artistName'', JStr ''Artist X'')]
   \<and> 0 < ev_ms (2023, ''song'', ''Artist X'', ''Artist X - Song A'', 1500)
   \<and> safe_get [(''ts'', JStr ''2023-05-01T10:00:00Z''), (''msPlayed'', JStr ''abc''),
               (''trackName'', JStr ''Song A''), (''artistName'', JStr ''Artist X'')] ms_keys = Some (JStr ''abc'')
   \<and> py_int core_runtime (JStr ''abc'') = None
   \<and> normalize_record core_runtime [(''ts'', JStr ''2023-05-01T10:00:00Z''), (''msPlayed'', JStr ''abc''),
               (''trackName'', JStr ''Song A''), (''artistName'', JStr ''Artist X'')] = None
   \<and> list_all is_ascii '' 1_500 '' \<and> int (length '' 1_500 '') \<le> 640
   \<and> py_int core_runtime (JStr '' 1_500 '') = int_core '' 1_500 ''
   \<and> int_core '' 1_500 '' = Some 1500"
proof -
  have d: "safe_get [(''ts'', JStr ''2023-05-01T10:00:00Z''), (''msPlayed'', JStr ''abc''),
               (''trackName'', JStr ''Song A''), (''artistName'', JStr ''Artist X'')] ms_keys = Some (JStr ''abc'')"
    "py_int core_runtime (JStr ''abc'') = None"
    by code_simp+
  have e: "list_all is_ascii '' 1_500 '' \<and> int (length '' 1_500 '') \<le> 640"
    "int_core '' 1_500 '' = Some 1500"
    by code_simp+
  from duration_resolution [where rt = core_runtime and r = "[(''ts'', JStr ''2023-05-01T10:00:00Z''), (''msPlayed'', JStr ''abc''),
               (''trackName'', JStr ''Song A''), (''artistName'', JStr ''Artist X'')]" and v = "JStr ''abc''"] d
  have d': "normalize_record core_runtime [(''ts'', JStr ''2023-05-01T10:00:00Z''), (''msPlayed'', JStr ''abc''),
               (''trackName'', JStr ''Song A''), (''artistName'', JStr ''Artist X'')] = None"
    by blast
  from duration_resolution [where rt = core_runtime and t = "'' 1_500 ''"] e
  have e': "py_int core_runtime (JStr '' 1_500 '') = int_core '' 1_500 ''"
    by blast
  have a: "resolve_ms core_runtime [(''ts'', JStr ''2023-05-01T10:00:00Z''), (''ms_played'', JInt 0),
               (''trackName'', JStr ''Song A''), (''artistName'', JStr ''Artist X'')] \<le> 0
     \<and> map_of [(''ts'', JStr ''2023-05-01T10:00:00Z''), (''ms_played'', JInt 0),
               (''trackName'', JStr ''Song A''), (''artistName'', JStr ''Artist X'')] ''ms_played''
       = Some (JInt 0)"
    by code_simp
  have b: "map_of [(''ts'', JStr ''2023-05-01T10:00:00Z''),
               (''trackName'', JStr ''Song A''), (''artistName'', JStr ''Artist X'')] ''ms_played'' = None
     \<and> map_of [(''ts'', JStr ''2023-05-01T10:00:00Z''),
               (''trackName'', JStr ''Song A''), (''artistName'', JStr ''Artist X'')] ''msPlayed'' = None
     \<and> map_of [(''ts'', JStr ''2023-05-01T10:00:00Z''),
               (''trackName'', JStr ''Song A''), (''artistName'', JStr ''Artist X'')] ''play_duration_ms''
       = None"
    by code_simp
  have c: "normalize_record core_runtime [(''ts'', JStr ''2023-05-01T10:00:00Z''), (''msPlayed'', JStr '' 1_500 ''),
               (''trackName'', JStr ''Song A''), (''artistName'', JStr ''Artist X'')]
       = Some (2023, ''song'', ''Artist X'', ''Artist X - Song A'', 1500)"
    by code_simp
  from duration_resolution [where r = "[(''ts'', JStr ''2023-05-01T10:00:00Z''), (''ms_played'', JInt 0),
               (''trackName'', JStr ''Song A''), (''artistName'', JStr ''Artist X'')]"] a
  have a': "normalize_record core_runtime [(''ts'', JStr ''2023-05-01T10:00:00Z''), (''ms_played'', JInt 0),
               (''trackName'', JStr ''Song A''), (''artistName'', JStr ''Artist X'')] = None"
    by blast
  from duration_resolution [where r = "[(''ts'', JStr ''2023-05-01T10:00:00Z''),
               (''trackName'', JStr ''Song A''), (''artistName'', JStr ''Artist X'')]"] b
  have b': "normalize_record core_runtime [(''ts'', JStr ''2023-05-01T10:00:00Z''),
               (''trackName'', JStr ''Song A''), (''artistName'', JStr ''Artist X'')] = None"
    by blast
  from duration_resolution [where r = "[(''ts'', JStr ''2023-05-01T10:00:00Z''), (''msPlayed'', JStr '' 1_500 ''),
               (''trackName'', JStr ''Song A''), (''artistName'', JStr ''Artist X'')]"
      and e = "(2023, ''song'', ''Artist X'', ''Artist X - Song A'', 1500)"] c
  have c': "ev_ms (2023, ''song'', ''Artist X'', ''Artist X - Song A'', 1500)
       = resolve_ms core_runtime [(''ts'', JStr ''2023-05-01T10:00:00Z''), (''msPlayed'', JStr '' 1_500 ''),
               (''trackName'', JStr ''Song A''), (''artistName'', JStr ''Artist X'')]
     \<and> 0 < ev_ms (2023, ''song'', ''Artist X'', ''Artist X - Song A'', 1500)"
    by blast
  from a a' b b' c c' d d' e e' show ?thesis by blast
qed

section \<open>The string \<open>"null"\<close>\<close>

lemma safe_get_nullish:
  "nullish v \<Longrightarrow> safe_get (AList.update k v d) keys = safe_get (AList.delete k d) keys"
  by (induction keys) (auto simp: update_conv' delete_conv' split: option.splits)

text \<open>
  C9. The string \<open>"null"\<close>, null and the empty string are the values that a probe
  skips. Storing such a value under a key gives the same result as removing the key:
  for every probe, and so for the normalization of the record, whether or not podcasts
  and audiobooks are included. A candidate field that holds \<open>"null"\<close> makes the probe
  go on with the next candidate. A record with \<open>ts = "null"\<close> and no other timestamp
  field is discarded.
\<close>

theorem null_string_is_absent:
  "nullish (JStr ''null'') \<and> nullish JNull \<and> nullish (JStr [])
   \<and> (nullish v \<longrightarrow> safe_get (AList.update k v d) keys = safe_get (AList.delete k d) keys)
   \<and> (nullish v \<longrightarrow>
        normalize_record_with rt inc (AList.update k v d) = normalize_record_with rt inc (AList.delete k d)
        \<and> normalize_record rt (AList.update k v d) = normalize_record rt (AList.delete k d))
   \<and> (map_of d k = Some (JStr ''null'') \<longrightarrow> safe_get d (k # keys) = safe_get d keys)
   \<and> (map_of d ''ts'' = Some (JStr ''null'') \<and> map_of d ''endTime'' = None
        \<and> map_of d ''timestamp'' = None \<and> map_of d ''played_at'' = None
        \<longrightarrow> normalize_record_with rt inc d = None \<and> normalize_record rt d = None)"
proof (intro conjI impI)
  show "nullish (JStr ''null'')" "nullish JNull" "nullish (JStr [])"
    by (simp_all add: nullish_def)
  show "safe_get (AList.update k v d) keys = safe_get (AList.delete k d) keys" if "nullish v"
    using that by (rule safe_get_nullish)
  show w: "normalize_record_with rt inc (AList.update k v d) = normalize_record_with rt inc (AList.delete k d)"
    if "nullish v" for inc
  proof -
    note g = safe_get_nullish [OF that]
    have rdt: "resolve_dt rt (AList.update k v d) = resolve_dt rt (AList.delete k d)"
      by (simp add: resolve_dt_def g)
    have rms: "resolve_ms rt (AList.update k v d) = resolve_ms rt (AList.delete k d)"
      by (simp add: resolve_ms_def g)
    have rcl: "classify inc (AList.update k v d) dt ms = classify inc (AList.delete k d) dt ms"
      for dt ms
      unfolding classify_def g by (rule refl)
    show ?thesis
      unfolding normalize_record_with_def rdt rms rcl by (rule refl)
  qed
  show "normalize_record rt (AList.update k v d) = normalize_record rt (AList.delete k d)" if "nullish v"
    using w [OF that] by (simp add: normalize_record_def)
  show "safe_get d (k # keys) = safe_get d keys" if "map_of d k = Some (JStr ''null'')"
    using that by (simp add: nullish_def)
  show n: "normalize_record_with rt inc d = None"
    if "map_of d ''ts'' = Some (JStr ''null'') \<and> map_of d ''endTime'' = None
        \<and> map_of d ''timestamp'' = None \<and> map_of d ''played_at'' = None" for inc
    using that by (simp add: normalize_no_dt resolve_dt_def ts_keys_def nullish_def)
  show "normalize_record rt d = None"
    if "map_of d ''ts'' = Some (JStr ''null'') \<and> map_of d ''endTime'' = None
        \<and> map_of d ''timestamp'' = None \<and> map_of d ''played_at'' = None"
    using n [OF that] by (simp add: normalize_record_def)
qed


theorem null_string_is_absent_witness:
  "nullish (JStr ''null'')
   \<and> normalize_record core_runtime (AList.update ''ts'' (JStr ''null'')
        [(''ts'', JStr ''2023-05-01T10:00:00Z''), (''endTime'', JStr ''2022-05-01 10:00''),
         (''ms_played'', JInt 180000), (''trackName'', JStr ''Song A''),
         (''artistName'', JStr ''Artist X'')])
     = normalize_record core_runtime (AList.delete ''ts''
        [(''ts'', JStr ''2023-05-01T10:00:00Z''), (''endTime'', JStr ''2022-05-01 10:00''),
         (''ms_played'', JInt 180000), (''trackName'', JStr ''Song A''),
         (''artistName'', JStr ''Artist X'')])
   \<and> normalize_record core_runtime (AList.update ''ts'' (JStr ''null'')
        [(''ts'', JStr ''2023-05-01T10:00:00Z''), (''endTime'', JStr ''2022-05-01 10:00''),
         (''ms_played'', JInt 180000), (''trackName'', JStr ''Song A''),
         (''artistName'', JStr ''Artist X'')])
     = Some (2022, ''song'', ''Artist X'', ''Artist X - Song A'', 180000)
   \<and> map_of [(''ts'', JStr ''null''), (''ms_played'', JInt 180000),
         (''trackName'', JStr ''Song A''), (''artistName'', JStr ''Artist X'')] ''ts''
       = Some (JStr ''null'')
   \<and> safe_get [(''ts'', JStr ''null''), (''ms_played'', JInt 180000),
         (''trackName'', JStr ''Song A''), (''artistName'', JStr ''Artist X'')]
        (''ts'' # [''endTime'', ''timestamp'', ''played_at''])
     = safe_get [(''ts'', JStr ''null''), (''ms_played'', JInt 180000),
         (''trackName'', JStr ''Song A''), (''artistName'', JStr ''Artist X'')]
        [''endTime'', ''timestamp'', ''played_at'']
   \<and> normalize_record core_runtime [(''ts'', JStr ''null''), (''ms_played'', JInt 180000),
         (''trackName'', JStr ''Song A''), (''artistName'', JStr ''Artist X'')] = None"
proof -
  have a: "nullish (JStr ''null'')"
    by code_simp
  have b: "normalize_record core_runtime (AList.update ''ts'' (JStr ''null'')
        [(''ts'', JStr ''2023-05-01T10:00:00Z''), (''endTime'', JStr ''2022-05-01 10:00''),
         (''ms_played'', JInt 180000), (''trackName'', JStr ''Song A''),
         (''artistName'', JStr ''Artist X'')])
     = Some (2022, ''song'', ''Artist X'', ''Artist X - Song A'', 180000)"
    by code_simp
  have c: "map_of [(''ts'', JStr ''null''), (''ms_played'', JInt 180000),
         (''trackName'', JStr ''Song A''), (''artistName'', JStr ''Artist X'')] ''ts''
       = Some (JStr ''null'')
     \<and> map_of [(''ts'', JStr ''null''), (''ms_played'', JInt 180000),
         (''trackName'', JStr ''Song A''), (''artistName'', JStr ''Artist X'')] ''endTime'' = None
     \<and> map_of [(''ts'', JStr ''null''), (''ms_played'', JInt 180000),
         (''trackName'', JStr ''Song A''), (''artistName'', JStr ''Artist X'')] ''timestamp'' = None
     \<and> map_of [(''ts'', JStr ''null''), (''ms_played'', JInt 180000),
         (''trackName'', JStr ''Song A''), (''artistName'', JStr ''Artist X'')] ''played_at'' = None"
    by code_simp
  from null_string_is_absent [where v = "JStr ''null''" and k = "''ts''"
      and d = "[(''ts'', JStr ''2023-05-01T10:00:00Z''), (''endTime'', JStr ''2022-05-01 10:00''),
         (''ms_played'', JInt 180000), (''trackName'', JStr ''Song A''),
         (''artistName'', JStr ''Artist X'')]"] a
  have a': "normalize_record core_runtime (AList.update ''ts'' (JStr ''null'')
        [(''ts'', JStr ''2023-05-01T10:00:00Z''), (''endTime'', JStr ''2022-05-01 10:00''),
         (''ms_played'', JInt 180000), (''trackName'', JStr ''Song A''),
         (''artistName'', JStr ''Artist X'')])
     = normalize_record core_runtime (AList.delete ''ts''
        [(''ts'', JStr ''2023-05-01T10:00:00Z''), (''endTime'', JStr ''2022-05-01 10:00''),
         (''ms_played'', JInt 180000), (''trackName'', JStr ''Song A''),
         (''artistName'', JStr ''Artist X'')])"
    by blast
  from null_string_is_absent [where k = "''ts''" and keys = "[''endTime'', ''timestamp'', ''played_at'']"
      and d = "[(''ts'', JStr ''null''), (''ms_played'', JInt 180000),
         (''trackName'', JStr ''Song A''), (''artistName'', JStr ''Artist X'')]"] c
  have c': "safe_get [(''ts'', JStr ''null''), (''ms_played'', JInt 180000),
         (''trackName'', JStr ''Song A''), (''artistName'', JStr ''Artist X'')]
        (''ts'' # [''endTime'', ''timestamp'', ''played_at''])
     = safe_get [(''ts'', JStr ''null''), (''ms_played'', JInt 180000),
         (''trackName'', JStr ''Song A''), (''artistName'', JStr ''Artist X'')]
        [''endTime'', ''timestamp'', ''played_at'']
     \<and> normalize_record core_runtime [(''ts'', JStr ''null''), (''ms_played'', JInt 180000),
         (''trackName'', JStr ''Song A''), (''artistName'', JStr ''Artist X'')] = None"
    by blast
  from a a' b c c' show ?thesis by blast
qed

section \<open>The loader\<close>

lemma records_of_fails [simp]: "records_of Open_fails = []" "records_of Decode_fails = []"
  by (simp_all add: records_of_def)

lemma append_dicts_eq: "append_dicts records xs = records @ dicts_of xs"
  by (induction xs arbitrary: records)
     (auto simp: dicts_of_def List.map_filter_simps split: json.splits)

lemma add_file_eq: "add_file records data = records @ records_of (Decoded data)"
  by (auto simp: add_file_def unwrap_history_def records_of_def append_dicts_eq
           split: json.splits option.splits)

lemma load_loop_eq:
  "load_loop rd records ps =
     (case find (\<lambda>p. rd p = Open_fails) ps of
        Some p \<Rightarrow> Inl (Open_error p)
      | None \<Rightarrow> Inr (records @ concat (map (\<lambda>p. records_of (rd p)) ps)))"
  by (induction ps arbitrary: records)
     (auto simp: add_file_eq split: file_content.splits option.splits)

lemma paths_empty: "(sort (remdups (glob folder)) = []) = (glob folder = [])"
  by (metis set_empty set_remdups set_sort)

lemma paths_single: "set xs = {p} \<Longrightarrow> sort (remdups xs) = [p]"
proof -
  assume "set xs = {p}"
  then have "set (sort (remdups xs)) = set [p]" by simp
  moreover have "distinct (sort (remdups xs))" "sorted (sort (remdups xs))" by simp_all
  ultimately show ?thesis
    by (intro sorted_distinct_set_unique) simp_all
qed


text \<open>
  C8, as stated, fails: of the two paths below the first decodes to a list with one
  object and the second cannot be opened (a directory named \<open>m.json\<close>, say); the
  loader raises the error of \<open>open\<close>, which stands outside the \<open>try\<close>, and returns
  no records, while the concatenation over the decoded files holds one record.
\<close>

theorem unopenable_file_counterexample:
  "load_streaming_history (\<lambda>f. [''a.json'', ''m.json''])
     (\<lambda>p. if p = ''a.json'' then Decoded (JList [JObj [(''ts'', JStr ''2023-05-01'')]])
              else Open_fails) ''./spotify_data''
   = Inl (Open_error ''m.json'')
   \<and> concat (map (\<lambda>p. records_of ((\<lambda>p. if p = ''a.json'' then Decoded (JList [JObj [(''ts'', JStr ''2023-05-01'')]])
              else Open_fails) p)) [''a.json'', ''m.json''])
     = [[(''ts'', JStr ''2023-05-01'')]]
   \<and> load_streaming_history (\<lambda>f. [''a.json'', ''m.json''])
     (\<lambda>p. if p = ''a.json'' then Decoded (JList [JObj [(''ts'', JStr ''2023-05-01'')]])
              else Open_fails) ''./spotify_data''
   \<noteq> Inr (concat (map (\<lambda>p. records_of ((\<lambda>p. if p = ''a.json'' then Decoded (JList [JObj [(''ts'', JStr ''2023-05-01'')]])
              else Open_fails) p)) [''a.json'', ''m.json'']))"
  by (intro conjI) code_simp+

text \<open>
  C8, amended. Where some path is found and every path can be opened, the loader
  returns the concatenation, over the paths sorted and without duplicates, of what each
  file gives: the objects of a bare list, the objects of the list under \<open>"history"\<close>
  of an object, nothing for any other value and nothing for a file that does not
  decode. Elements that are not objects are left out. With no path the loader raises
  the no-input error; with a path that cannot be opened it raises the error of
  \<open>open\<close> for the first such path and returns nothing.
\<close>

theorem loader_concatenates:
  "load_streaming_history glob rd folder =
     (if glob folder = [] then Inl (No_json_files folder)
      else case find (\<lambda>p. rd p = Open_fails) (sort (remdups (glob folder))) of
             Some p \<Rightarrow> Inl (Open_error p)
           | None \<Rightarrow> Inr (concat (map (\<lambda>p. records_of (rd p)) (sort (remdups (glob folder))))))
   \<and> sorted (sort (remdups (glob folder)))
   \<and> distinct (sort (remdups (glob folder)))
   \<and> set (sort (remdups (glob folder))) = set (glob folder)
   \<and> records_of Decode_fails = []
   \<and> records_of (Decoded (JList xs)) = dicts_of xs
   \<and> records_of (Decoded (JObj ((''history'', JList xs) # kvs))) = dicts_of xs
   \<and> dicts_of (JObj kvs # xs) = kvs # dicts_of xs
   \<and> dicts_of (JStr t # xs) = dicts_of xs
   \<and> dicts_of (JInt i # xs) = dicts_of xs
   \<and> dicts_of (JList ys # xs) = dicts_of xs
   \<and> dicts_of (JNull # xs) = dicts_of xs
   \<and> dicts_of (JBool b # xs) = dicts_of xs
   \<and> dicts_of (JFloat x # xs) = dicts_of xs
   \<and> dicts_of [] = []"
  by (simp add: load_streaming_history_def Let_def load_loop_eq paths_empty records_of_def
        dicts_of_def List.map_filter_simps split: option.splits)



text \<open>
  C10. A file that decodes to an object without a list under the key \<open>"history"\<close>
  adds no record, and the loop goes on with the next path; a folder with only such a
  file loads as the empty sequence, without an error. No other key is looked at: the
  condition is on the member \<open>"history"\<close> alone.
\<close>

theorem unwrapped_object_gives_nothing:
  "(\<forall>xs. map_of kvs ''history'' \<noteq> Some (JList xs)) \<longrightarrow>
      add_file records (JObj kvs) = records
      \<and> (rd p = Decoded (JObj kvs) \<longrightarrow> load_loop rd records (p # ps) = load_loop rd records ps)
      \<and> (rd p = Decoded (JObj kvs) \<and> set (glob folder) = {p}
            \<longrightarrow> load_streaming_history glob rd folder = Inr [])"
proof (intro impI conjI)
  assume h: "\<forall>xs. map_of kvs ''history'' \<noteq> Some (JList xs)"
  then show a: "add_file records (JObj kvs) = records" for records
    by (auto simp: add_file_def unwrap_history_def split: option.splits json.splits)
  show "load_loop rd records (p # ps) = load_loop rd records ps" if "rd p = Decoded (JObj kvs)"
    using that a by simp
  show "load_streaming_history glob rd folder = Inr []"
    if "rd p = Decoded (JObj kvs) \<and> set (glob folder) = {p}"
    using that a by (simp add: load_streaming_history_def Let_def paths_single)
qed

theorem unwrapped_object_gives_nothing_witness:
  "(\<forall>xs. map_of [(''History'', JList [JObj [(''ts'', JStr ''2023-05-01T10:00:00Z'')]])] ''history''
          \<noteq> Some (JList xs))
   \<and> add_file [] (JObj [(''History'', JList [JObj [(''ts'', JStr ''2023-05-01T10:00:00Z'')]])]) = []
   \<and> load_loop (\<lambda>p. Decoded (JObj [(''History'', JList [JObj [(''ts'', JStr ''2023-05-01T10:00:00Z'')]])]))
        [] [''a.json'', ''b.json'']
     = load_loop (\<lambda>p. Decoded (JObj [(''History'', JList [JObj [(''ts'', JStr ''2023-05-01T10:00:00Z'')]])]))
        [] [''b.json'']
   \<and> load_streaming_history (\<lambda>f. [''a.json''])
        (\<lambda>p. Decoded (JObj [(''History'', JList [JObj [(''ts'', JStr ''2023-05-01T10:00:00Z'')]])]))
        DATA_FOLDER = Inr []"
proof -
  have a: "\<forall>xs. map_of [(''History'', JList [JObj [(''ts'', JStr ''2023-05-01T10:00:00Z'')]])] ''history''
          \<noteq> Some (JList xs)"
    by simp
  from unwrapped_object_gives_nothing
    [where kvs = "[(''History'', JList [JObj [(''ts'', JStr ''2023-05-01T10:00:00Z'')]])]"
       and rd = "\<lambda>p. Decoded (JObj [(''History'', JList [JObj [(''ts'', JStr ''2023-05-01T10:00:00Z'')]])])"
       and glob = "\<lambda>f. [''a.json'']" and p = "''a.json''" and records = "[]"
       and ps = "[''b.json'']" and folder = DATA_FOLDER] a
  show ?thesis by simp
qed

end
